theory Spec2Isabelle
  imports Main "HOL-Library.AList"
begin

section \<open>JavaScript values used by the handlers\<close>

text \<open>
  A value that may be \<^verbatim>\<open>undefined\<close>, \<^verbatim>\<open>null\<close> or present. The handlers
  distinguish the first two: \<^verbatim>\<open>let differences: any = null\<close> against
  \<^verbatim>\<open>let differences: any\<close>.
\<close>

datatype 'a jsval = Undefined | Null | Val 'a

text \<open>\<^verbatim>\<open>a || b\<close> on an optional string: the empty string is falsy too.\<close>

definition truthy :: "string option \<Rightarrow> bool" where
  "truthy a = (case a of None \<Rightarrow> False | Some s \<Rightarrow> s \<noteq> [])"

definition js_or :: "string option \<Rightarrow> string \<Rightarrow> string" where
  "js_or a b = (case a of None \<Rightarrow> b | Some s \<Rightarrow> if s = [] then b else s)"

definition DEFAULT_PRESENCE_CACHE_KEY :: string where
  "DEFAULT_PRESENCE_CACHE_KEY = ''@me''"

section \<open>Entities\<close>

text \<open>
  Modelled from the spec: the structures (\<^verbatim>\<open>../structures\<close>) are not part of the
  sources. Each entity is a record with its identity and the mergeable fields the
  handlers read; \<^verbatim>\<open>merge\<close> overwrites only the fields present in the partial payload
  (spec 4.2), and the constructor merges the payload into the defaults.
\<close>

record user =
  u_id :: string
  u_username :: string

record raw_user =
  ru_id :: string
  ru_username :: "string option"

definition user_merge :: "user \<Rightarrow> raw_user \<Rightarrow> user" where
  "user_merge u r = u\<lparr>u_id := ru_id r,
     u_username := (case ru_username r of None \<Rightarrow> u_username u | Some n \<Rightarrow> n)\<rparr>"

definition new_User :: "raw_user \<Rightarrow> user" where
  "new_User r = user_merge \<lparr>u_id = [], u_username = []\<rparr> r"

record guild =
  g_id :: string
  g_name :: string
  g_unavailable :: bool
  g_memberCount :: int

record raw_guild =
  rg_id :: string
  rg_name :: "string option"
  rg_unavailable :: "bool option"
  rg_member_count :: "int option"

definition guild_merge :: "guild \<Rightarrow> raw_guild \<Rightarrow> guild" where
  "guild_merge g r = g\<lparr>g_id := rg_id r,
     g_name := (case rg_name r of None \<Rightarrow> g_name g | Some n \<Rightarrow> n),
     g_unavailable := (case rg_unavailable r of None \<Rightarrow> g_unavailable g | Some b \<Rightarrow> b),
     g_memberCount := (case rg_member_count r of None \<Rightarrow> g_memberCount g | Some n \<Rightarrow> n)\<rparr>"

definition new_Guild :: "raw_guild \<Rightarrow> guild" where
  "new_Guild r = guild_merge \<lparr>g_id = [], g_name = [], g_unavailable = False, g_memberCount = 0\<rparr> r"

text \<open>
  Modelled from the spec: \<^verbatim>\<open>differences\<close> (4.3) lists the fields present in the
  partial whose value differs from the entity's current one.
\<close>

definition guild_differences :: "guild \<Rightarrow> raw_guild \<Rightarrow> string list" where
  "guild_differences g r =
     (if rg_id r \<noteq> g_id g then [''id''] else []) @
     (case rg_name r of None \<Rightarrow> [] | Some n \<Rightarrow> if n \<noteq> g_name g then [''name''] else []) @
     (case rg_unavailable r of None \<Rightarrow> []
        | Some b \<Rightarrow> if b \<noteq> g_unavailable g then [''unavailable''] else []) @
     (case rg_member_count r of None \<Rightarrow> []
        | Some n \<Rightarrow> if n \<noteq> g_memberCount g then [''memberCount''] else [])"

record channel =
  c_id :: string
  c_name :: string
  c_lastPinTimestamp :: "string option"

record raw_channel =
  rc_id :: string
  rc_name :: "string option"
  rc_last_pin_timestamp :: "string option option"

definition channel_merge :: "channel \<Rightarrow> raw_channel \<Rightarrow> channel" where
  "channel_merge c r = c\<lparr>c_id := rc_id r,
     c_name := (case rc_name r of None \<Rightarrow> c_name c | Some n \<Rightarrow> n),
     c_lastPinTimestamp :=
       (case rc_last_pin_timestamp r of None \<Rightarrow> c_lastPinTimestamp c | Some t \<Rightarrow> t)\<rparr>"

definition createChannelFromData :: "raw_channel \<Rightarrow> channel" where
  "createChannelFromData r = channel_merge \<lparr>c_id = [], c_name = [], c_lastPinTimestamp = None\<rparr> r"

definition channel_differences :: "channel \<Rightarrow> raw_channel \<Rightarrow> string list" where
  "channel_differences c r =
     (if rc_id r \<noteq> c_id c then [''id''] else []) @
     (case rc_name r of None \<Rightarrow> [] | Some n \<Rightarrow> if n \<noteq> c_name c then [''name''] else []) @
     (case rc_last_pin_timestamp r of None \<Rightarrow> []
        | Some t \<Rightarrow> if t \<noteq> c_lastPinTimestamp c then [''lastPinTimestamp''] else [])"

record voiceCall =
  vc_channelId :: string
  vc_region :: string

record raw_call =
  rvc_channel_id :: string
  rvc_region :: "string option"

definition call_merge :: "voiceCall \<Rightarrow> raw_call \<Rightarrow> voiceCall" where
  "call_merge c r = c\<lparr>vc_channelId := rvc_channel_id r,
     vc_region := (case rvc_region r of None \<Rightarrow> vc_region c | Some n \<Rightarrow> n)\<rparr>"

definition new_VoiceCall :: "raw_call \<Rightarrow> voiceCall" where
  "new_VoiceCall r = call_merge \<lparr>vc_channelId = [], vc_region = []\<rparr> r"

definition call_differences :: "voiceCall \<Rightarrow> raw_call \<Rightarrow> string list" where
  "call_differences c r =
     (if rvc_channel_id r \<noteq> vc_channelId c then [''channelId''] else []) @
     (case rvc_region r of None \<Rightarrow> [] | Some n \<Rightarrow> if n \<noteq> vc_region c then [''region''] else [])"

record reaction =
  r_emoji :: string
  r_count :: int
  r_me :: bool

record message =
  m_id :: string
  m_channelId :: string
  m_content :: string
  m_reactions :: "(string \<times> reaction) list"

record raw_message =
  rm_id :: string
  rm_channel_id :: "string option"
  rm_content :: "string option"

definition message_merge :: "message \<Rightarrow> raw_message \<Rightarrow> message" where
  "message_merge m r = m\<lparr>m_id := rm_id r,
     m_channelId := (case rm_channel_id r of None \<Rightarrow> m_channelId m | Some c \<Rightarrow> c),
     m_content := (case rm_content r of None \<Rightarrow> m_content m | Some c \<Rightarrow> c)\<rparr>"

definition new_Message :: "raw_message \<Rightarrow> message" where
  "new_Message r =
     message_merge \<lparr>m_id = [], m_channelId = [], m_content = [], m_reactions = []\<rparr> r"

definition message_differences :: "message \<Rightarrow> raw_message \<Rightarrow> string list" where
  "message_differences m r =
     (if rm_id r \<noteq> m_id m then [''id''] else []) @
     (case rm_channel_id r of None \<Rightarrow> []
        | Some c \<Rightarrow> if c \<noteq> m_channelId m then [''channelId''] else []) @
     (case rm_content r of None \<Rightarrow> [] | Some c \<Rightarrow> if c \<noteq> m_content m then [''content''] else [])"

record emoji =
  e_id :: string
  e_guildId :: "string option"

record presence =
  p_userId :: string
  p_guildId :: "string option"
  p_status :: string

record raw_presence =
  rp_guild_id :: "string option"
  rp_user :: raw_user
  rp_status :: "string option"
  rp_nick :: "string option"
  rp_roles :: "string list option"

definition presence_merge :: "presence \<Rightarrow> raw_presence \<Rightarrow> presence" where
  "presence_merge p r = p\<lparr>p_userId := ru_id (rp_user r),
     p_guildId := (case rp_guild_id r of None \<Rightarrow> p_guildId p | Some g \<Rightarrow> Some g),
     p_status := (case rp_status r of None \<Rightarrow> p_status p | Some s \<Rightarrow> s)\<rparr>"

definition new_Presence :: "raw_presence \<Rightarrow> presence" where
  "new_Presence r = presence_merge \<lparr>p_userId = [], p_guildId = None, p_status = ''offline''\<rparr> r"

definition presence_differences :: "presence \<Rightarrow> raw_presence \<Rightarrow> string list" where
  "presence_differences p r =
     (case rp_status r of None \<Rightarrow> [] | Some s \<Rightarrow> if s \<noteq> p_status p then [''status''] else [])"

text \<open>\<^verbatim>\<open>old.merge(presence)\<close> with a whole presence: every field is present.\<close>

definition presence_absorb :: "presence \<Rightarrow> presence \<Rightarrow> presence" where
  "presence_absorb q p = q\<lparr>p_userId := p_userId p, p_guildId := p_guildId p, p_status := p_status p\<rparr>"

definition isOffline :: "presence \<Rightarrow> bool" where
  "isOffline p = (p_status p = ''offline'')"

definition fromGuild :: "presence \<Rightarrow> bool" where
  "fromGuild p = truthy (p_guildId p)"

definition cacheId_of :: "presence \<Rightarrow> string" where
  "cacheId_of p = js_or (p_guildId p) DEFAULT_PRESENCE_CACHE_KEY"

record member =
  mb_guildId :: string
  mb_userId :: string
  mb_nick :: "string option"
  mb_roles :: "string list"

record raw_member =
  rmb_guild_id :: string
  rmb_nick :: "string option"
  rmb_roles :: "string list option"
  rmb_user :: raw_user

definition member_merge :: "member \<Rightarrow> raw_member \<Rightarrow> member" where
  "member_merge m r = m\<lparr>mb_guildId := rmb_guild_id r, mb_userId := ru_id (rmb_user r),
     mb_nick := (case rmb_nick r of None \<Rightarrow> mb_nick m | Some n \<Rightarrow> Some n),
     mb_roles := (case rmb_roles r of None \<Rightarrow> mb_roles m | Some rs \<Rightarrow> rs)\<rparr>"

definition new_Member :: "raw_member \<Rightarrow> member" where
  "new_Member r = member_merge \<lparr>mb_guildId = [], mb_userId = [], mb_nick = None, mb_roles = []\<rparr> r"

definition member_differences :: "member \<Rightarrow> raw_member \<Rightarrow> string list" where
  "member_differences m r =
     (case rmb_nick r of None \<Rightarrow> [] | Some n \<Rightarrow> if Some n \<noteq> mb_nick m then [''nick''] else []) @
     (case rmb_roles r of None \<Rightarrow> [] | Some rs \<Rightarrow> if rs \<noteq> mb_roles m then [''roles''] else [])"

section \<open>Collections\<close>

text \<open>
  Modelled from the spec: \<^verbatim>\<open>BaseCollection\<close> and \<^verbatim>\<open>BaseClientCollection\<close>
  (\<^verbatim>\<open>./basecollection\<close>) are not part of the sources. A flat repository is a
  keyed store (a JavaScript \<^verbatim>\<open>Map\<close>, kept in insertion order) with the
  \<^verbatim>\<open>enabled\<close> flag the READY handler reads; \<^verbatim>\<open>insert\<close> stores the entity
  under its id when the repository is enabled.
\<close>

record 'v collection =
  col_enabled :: bool
  col_entries :: "(string \<times> 'v) list"

definition col_has :: "'v collection \<Rightarrow> string \<Rightarrow> bool" where
  "col_has c k = (map_of (col_entries c) k \<noteq> None)"

definition col_get :: "'v collection \<Rightarrow> string \<Rightarrow> 'v option" where
  "col_get c k = map_of (col_entries c) k"

definition col_set :: "'v collection \<Rightarrow> string \<Rightarrow> 'v \<Rightarrow> 'v collection" where
  "col_set c k v = c\<lparr>col_entries := AList.update k v (col_entries c)\<rparr>"

definition col_delete :: "'v collection \<Rightarrow> string \<Rightarrow> 'v collection" where
  "col_delete c k = c\<lparr>col_entries := AList.delete k (col_entries c)\<rparr>"

definition col_insert :: "'v collection \<Rightarrow> string \<Rightarrow> 'v \<Rightarrow> 'v collection" where
  "col_insert c k v = (if col_enabled c then col_set c k v else c)"

text \<open>
  A tiered cache: cache id \<open>\<rightarrow>\<close> (user id \<open>\<rightarrow>\<close> entity). The entities are objects
  shared by reference between the cache, the handlers and the notifications, so the cache
  holds addresses into its object store \<open>tc_heap\<close>; \<open>tc_next\<close> is the next free
  address.
\<close>

record 'v tcache =
  tc_enabled :: bool
  tc_storeOffline :: bool
  tc_tiers :: "(string \<times> (string \<times> nat) list) list"
  tc_heap :: "nat \<Rightarrow> 'v option"
  tc_next :: nat

definition tc_new :: "'v tcache \<Rightarrow> 'v \<Rightarrow> nat \<times> 'v tcache" where
  "tc_new c v = (tc_next c, c\<lparr>tc_heap := (tc_heap c)(tc_next c \<mapsto> v), tc_next := Suc (tc_next c)\<rparr>)"

definition deref :: "'v tcache \<Rightarrow> nat \<Rightarrow> 'v" where
  "deref c a = the (tc_heap c a)"

definition tc_mutate :: "'v tcache \<Rightarrow> nat \<Rightarrow> ('v \<Rightarrow> 'v) \<Rightarrow> 'v tcache" where
  "tc_mutate c a f = c\<lparr>tc_heap := (tc_heap c)(a \<mapsto> f (deref c a))\<rparr>"

datatype lookup = Cache "(string \<times> nat) list" | Entity nat | NotFound

text \<open>The cast \<^verbatim>\<open><Presence> this.get(..)\<close>, applied after \<^verbatim>\<open>has\<close> succeeded.\<close>

fun as_entity :: "lookup \<Rightarrow> nat" where
  "as_entity (Entity a) = a"
| "as_entity _ = 0"

subsection \<open>Presences (src/collections/presences.ts)\<close>

definition presences_insertCache :: "'v tcache \<Rightarrow> string \<Rightarrow> 'v tcache" where
  "presences_insertCache c cacheId =
     (if map_of (tc_tiers c) cacheId = None
      then c\<lparr>tc_tiers := AList.update cacheId [] (tc_tiers c)\<rparr> else c)"

definition presences_delete :: "'v tcache \<Rightarrow> string option \<Rightarrow> string option \<Rightarrow> bool \<times> 'v tcache" where
  "presences_delete c cacheId userId =
     (if tc_enabled c then
        (case cacheId of
           Some cid \<Rightarrow>
             (case map_of (tc_tiers c) cid of
                Some cache \<Rightarrow>
                  (case userId of
                     Some uid \<Rightarrow> (map_of cache uid \<noteq> None,
                        c\<lparr>tc_tiers := AList.update cid (AList.delete uid cache) (tc_tiers c)\<rparr>)
                   | None \<Rightarrow> (True, c\<lparr>tc_tiers := AList.delete cid (tc_tiers c)\<rparr>))
              | None \<Rightarrow> (False, c))
         | None \<Rightarrow>
             (case userId of
                Some uid \<Rightarrow> (\<exists>(k, cache) \<in> set (tc_tiers c). map_of cache uid \<noteq> None,
                   c\<lparr>tc_tiers := map (\<lambda>(k, cache). (k, AList.delete uid cache)) (tc_tiers c)\<rparr>)
              | None \<Rightarrow> (False, c)))
      else (False, c))"

definition presences_get :: "'v tcache \<Rightarrow> string option \<Rightarrow> string option \<Rightarrow> lookup" where
  "presences_get c cacheId userId =
     (if tc_enabled c then
        (case cacheId of
           Some cid \<Rightarrow>
             (case map_of (tc_tiers c) cid of
                Some cache \<Rightarrow>
                  (case userId of
                     Some uid \<Rightarrow> (case map_of cache uid of Some a \<Rightarrow> Entity a | None \<Rightarrow> NotFound)
                   | None \<Rightarrow> Cache cache)
              | None \<Rightarrow> NotFound)
         | None \<Rightarrow>
             (case userId of
                Some uid \<Rightarrow>
                  (case List.find (\<lambda>(k, cache). map_of cache uid \<noteq> None) (tc_tiers c) of
                     Some (k, cache) \<Rightarrow>
                       (case map_of cache uid of Some a \<Rightarrow> Entity a | None \<Rightarrow> NotFound)
                   | None \<Rightarrow> NotFound)
              | None \<Rightarrow> NotFound))
      else NotFound)"

definition presences_has :: "'v tcache \<Rightarrow> string option \<Rightarrow> string option \<Rightarrow> bool" where
  "presences_has c cacheId userId =
     (if tc_enabled c then
        (case cacheId of
           Some cid \<Rightarrow>
             (case map_of (tc_tiers c) cid of
                Some cache \<Rightarrow>
                  (case userId of Some uid \<Rightarrow> map_of cache uid \<noteq> None | None \<Rightarrow> True)
              | None \<Rightarrow> False)
         | None \<Rightarrow>
             (case userId of
                Some uid \<Rightarrow> (\<exists>(k, cache) \<in> set (tc_tiers c). map_of cache uid \<noteq> None)
              | None \<Rightarrow> False))
      else False)"

text \<open>
  Modelled from the spec: the Members collection (\<^verbatim>\<open>./members\<close>) is not part of the
  sources. It is a tiered cache like Presences, with the same scope-keyed lookup and
  deletion; its \<^verbatim>\<open>insert\<close> follows the sibling \<^verbatim>\<open>TypingCollection.insert\<close>
  (ensure the scope tier, then store under the user id).
\<close>

definition members_has :: "member tcache \<Rightarrow> string option \<Rightarrow> string option \<Rightarrow> bool" where
  "members_has = presences_has"

definition members_get :: "member tcache \<Rightarrow> string option \<Rightarrow> string option \<Rightarrow> lookup" where
  "members_get = presences_get"

definition members_delete :: "member tcache \<Rightarrow> string option \<Rightarrow> string option \<Rightarrow> bool \<times> member tcache" where
  "members_delete = presences_delete"

definition members_insert :: "member tcache \<Rightarrow> nat \<Rightarrow> member tcache" where
  "members_insert c a =
     (if tc_enabled c then
        (let c1 = presences_insertCache c (mb_guildId (deref c a));
             cache = the (map_of (tc_tiers c1) (mb_guildId (deref c a)))
         in c1\<lparr>tc_tiers := AList.update (mb_guildId (deref c a))
                  (AList.update (mb_userId (deref c a)) a cache) (tc_tiers c1)\<rparr>)
      else c)"

section \<open>The client and the gateway handler state\<close>

text \<open>
  Modelled from the spec: the names of the outward notifications (\<^verbatim>\<open>ClientEvents\<close> in
  \<^verbatim>\<open>../constants\<close>) are not part of the sources; each constant the modelled handlers
  use is one constructor, and different constants are different names.
\<close>

datatype client_event =
    CE_CALL_UPDATE | CE_CHANNEL_DELETE | CE_CHANNEL_PINS_UPDATE | CE_CHANNEL_UPDATE
  | CE_GATEWAY_READY | CE_GUILD_BAN_ADD | CE_GUILD_BAN_REMOVE | CE_GUILD_CREATE
  | CE_GUILD_DELETE | CE_GUILD_MEMBER_UPDATE | CE_GUILD_UPDATE
  | CE_MESSAGE_REACTION_REMOVE | CE_MESSAGE_UPDATE | CE_PRESENCE_UPDATE

text \<open>
  The object passed to \<^verbatim>\<open>client.emit\<close>, one constructor per shape, fields in the
  order of the source's object literal. Members and presences are given by reference.
\<close>

datatype payload =
    PCallUpdate voiceCall "string list jsval"
  | PChannelPins "channel option" string "string option" "string option"
  | PChannelUpdate channel "string list jsval"
  | PReady
  | PGuildBan "user option" string user
  | PGuildCreate bool guild
  | PGuildDelete "guild option" string bool
  | PGuildMemberUpdate "string list jsval" string nat
  | PGuildUpdate "string list jsval" guild
  | PMessageReaction "channel option" string "guild option" "string option"
      "message option" string reaction "user option" string
  | PMessageUpdate "string list jsval" message
  | PPresenceUpdate "string list jsval" bool "nat option" nat "string option"

text \<open>
  The shard client with its collections, the gateway socket's settings
  (\<open>largeThreshold\<close>, \<open>guildSubscriptions\<close>) and its log of
  \<^verbatim>\<open>requestGuildMembers\<close> calls (\<open>requested\<close>), the fields of
  \<^verbatim>\<open>GatewayHandler\<close> (\<open>loadAllMembers\<close>, \<open>memberChunksLeft\<close>), the
  registered observers, the log of emitted notifications and a counter of
  \<^verbatim>\<open>differences\<close> computations.
\<close>

record client =
  cl_user :: "user option"
  listeners :: "client_event set"
  emitted :: "(client_event \<times> payload) list"
  diffCalls :: nat
  users :: "user collection"
  guilds :: "guild collection"
  channels :: "channel collection"
  messages :: "message collection"
  voiceCalls :: "voiceCall collection"
  emojis :: "emoji collection"
  members :: "member tcache"
  presences :: "presence tcache"
  largeThreshold :: int
  guildSubscriptions :: bool
  requested :: "string list"
  loadAllMembers :: bool
  memberChunksLeft :: "string set"

definition emit :: "client \<Rightarrow> client_event \<Rightarrow> payload \<Rightarrow> client" where
  "emit cl e p = cl\<lparr>emitted := emitted cl @ [(e, p)]\<rparr>"

definition hasEventListener :: "client \<Rightarrow> client_event \<Rightarrow> bool" where
  "hasEventListener cl e = (e \<in> listeners cl)"

definition shouldLoadAllMembers :: "client \<Rightarrow> bool" where
  "shouldLoadAllMembers cl = (loadAllMembers cl \<and> guildSubscriptions cl)"

definition requestGuildMembers :: "client \<Rightarrow> string \<Rightarrow> client" where
  "requestGuildMembers cl gid = cl\<lparr>requested := requested cl @ [gid]\<rparr>"

subsection \<open>Presences.insert and Presences.add\<close>

definition presences_insert :: "client \<Rightarrow> nat \<Rightarrow> nat option \<times> client" where
  "presences_insert cl a =
     (let p = deref (presences cl) a;
          cacheId = cacheId_of p;
          cl1 = cl\<lparr>presences := presences_insertCache (presences cl) cacheId\<rparr>
      in if \<not> tc_enabled (presences cl1) then (None, cl1)
         else
           (let cl2 = (if isOffline p \<and> fromGuild p \<and> \<not> tc_storeOffline (members cl1)
                       then cl1\<lparr>members := snd (members_delete (members cl1) (p_guildId p) (Some (p_userId p)))\<rparr>
                       else cl1)
            in if isOffline p \<and> \<not> tc_storeOffline (presences cl2)
               then (Some a, cl2\<lparr>presences := snd (presences_delete (presences cl2) (Some cacheId) (Some (p_userId p)))\<rparr>)
               else
                 (let cache = the (map_of (tc_tiers (presences cl2)) cacheId)
                  in case map_of cache (p_userId p) of
                       Some old \<Rightarrow>
                         (Some old, cl2\<lparr>presences := tc_mutate (presences cl2) old
                            (\<lambda>q. presence_absorb q p)\<rparr>)
                     | None \<Rightarrow>
                         (Some a, cl2\<lparr>presences := (presences cl2)\<lparr>tc_tiers :=
                            AList.update cacheId (AList.update (p_userId p) a cache)
                              (tc_tiers (presences cl2))\<rparr>\<rparr>))))"

definition presences_add :: "client \<Rightarrow> raw_presence \<Rightarrow> nat \<times> client" where
  "presences_add cl v =
     (let cacheId = js_or (rp_guild_id v) DEFAULT_PRESENCE_CACHE_KEY;
          cl1 = cl\<lparr>presences := presences_insertCache (presences cl) cacheId\<rparr>
      in if presences_has (presences cl1) (Some cacheId) (Some (ru_id (rp_user v))) then
           (let a = as_entity (presences_get (presences cl1) (Some cacheId) (Some (ru_id (rp_user v))));
                cl2 = cl1\<lparr>presences := tc_mutate (presences cl1) a (\<lambda>p. presence_merge p v)\<rparr>;
                p = deref (presences cl2) a
            in if isOffline p then
                 (let cl3 = (if fromGuild p \<and> \<not> tc_storeOffline (members cl2)
                             then cl2\<lparr>members := snd (members_delete (members cl2) (p_guildId p) (Some (p_userId p)))\<rparr>
                             else cl2);
                      cl4 = (if \<not> tc_storeOffline (presences cl3)
                             then cl3\<lparr>presences := snd (presences_delete (presences cl3) (Some cacheId) (Some (p_userId p)))\<rparr>
                             else cl3)
                  in (a, cl4))
               else (a, cl2))
         else
           (let (a, pc) = tc_new (presences cl1) (new_Presence v);
                (newPresence, cl2) = presences_insert (cl1\<lparr>presences := pc\<rparr>) a
            in case newPresence of Some b \<Rightarrow> (b, cl2) | None \<Rightarrow> (a, cl2)))"

subsection \<open>PRESENCE_UPDATE\<close>

definition on_PRESENCE_UPDATE :: "client \<Rightarrow> raw_presence \<Rightarrow> client" where
  "on_PRESENCE_UPDATE cl d =
     (let isGuildPresence = truthy (rp_guild_id d);
          cacheId = js_or (rp_guild_id d) DEFAULT_PRESENCE_CACHE_KEY;
          uid = ru_id (rp_user d);
          (differences, cl1) =
            (if hasEventListener cl CE_PRESENCE_UPDATE
                \<and> presences_has (presences cl) (Some cacheId) (Some uid)
             then (Val (presence_differences
                      (deref (presences cl) (as_entity (presences_get (presences cl) (Some cacheId) (Some uid)))) d),
                   cl\<lparr>diffCalls := Suc (diffCalls cl)\<rparr>)
             else (Null, cl));
          (presence, cl2) = presences_add cl1 d;
          (member, cl3) =
            (if truthy (rp_guild_id d) then
               (let rawMember = \<lparr>rmb_guild_id = the (rp_guild_id d), rmb_nick = rp_nick d,
                                  rmb_roles = Some (case rp_roles d of None \<Rightarrow> [] | Some rs \<Rightarrow> rs),
                                  rmb_user = rp_user d\<rparr>
                in if members_has (members cl2) (rp_guild_id d) (Some uid) then
                     (let m = as_entity (members_get (members cl2) (rp_guild_id d) (Some uid))
                      in (Some m, cl2\<lparr>members := tc_mutate (members cl2) m (\<lambda>x. member_merge x rawMember)\<rparr>))
                   else
                     (let (m, mc) = tc_new (members cl2) (new_Member rawMember)
                      in (Some m, cl2\<lparr>members := members_insert mc m\<rparr>)))
             else (None, cl2))
      in emit cl3 CE_PRESENCE_UPDATE
           (PPresenceUpdate differences isGuildPresence member presence (rp_guild_id d)))"

subsection \<open>A freshly constructed client\<close>

definition new_collection :: "bool \<Rightarrow> 'v collection" where
  "new_collection en = \<lparr>col_enabled = en, col_entries = []\<rparr>"

definition new_tcache :: "bool \<Rightarrow> bool \<Rightarrow> 'v tcache" where
  "new_tcache en so = \<lparr>tc_enabled = en, tc_storeOffline = so, tc_tiers = [],
     tc_heap = (\<lambda>_. None), tc_next = 0\<rparr>"

text \<open>
  All caches enabled and empty, offline presences and offline members not retained
  (\<^verbatim>\<open>storeOffline = !!options.storeOffline\<close>), no observer, bulk member loading on,
  large threshold 250.
\<close>

definition new_client :: client where
  "new_client = \<lparr>cl_user = None, listeners = {}, emitted = [], diffCalls = 0,
     users = new_collection True, guilds = new_collection True, channels = new_collection True,
     messages = new_collection True, voiceCalls = new_collection True,
     emojis = new_collection True, members = new_tcache True False,
     presences = new_tcache True False, largeThreshold = 250, guildSubscriptions = True,
     requested = [], loadAllMembers = True, memberChunksLeft = {}\<rparr>"

section \<open>Dispatch handlers (GatewayDispatchHandler)\<close>

subsection \<open>MESSAGE_REACTION_REMOVE\<close>

record raw_reaction =
  rr_channel_id :: string
  rr_guild_id :: "string option"
  rr_message_id :: string
  rr_user_id :: string
  rr_emoji_id :: "string option"
  rr_emoji_name :: string

text \<open>
  Modelled from the spec: \<^verbatim>\<open>new Reaction(client, data)\<close> takes the emoji from the
  event; an event carries no count, so the count starts at 0 and \<open>me\<close> at false.
\<close>

definition new_Reaction :: "raw_reaction \<Rightarrow> reaction" where
  "new_Reaction d = \<lparr>r_emoji = js_or (rr_emoji_id d) (rr_emoji_name d), r_count = 0, r_me = False\<rparr>"

text \<open>\<^verbatim>\<open>reaction.merge({count: Math.min(reaction.count - 1, 0), me: ..})\<close>\<close>

definition reaction_removed :: "reaction \<Rightarrow> string \<Rightarrow> string option \<Rightarrow> reaction" where
  "reaction_removed r userId meUserId =
     r\<lparr>r_count := min (r_count r - 1) 0, r_me := (r_me r \<and> Some userId \<noteq> meUserId)\<rparr>"

definition on_MESSAGE_REACTION_REMOVE :: "client \<Rightarrow> raw_reaction \<Rightarrow> client" where
  "on_MESSAGE_REACTION_REMOVE cl d =
     (let channelId = rr_channel_id d; guildId = rr_guild_id d; messageId = rr_message_id d;
          userId = rr_user_id d;
          user = (if col_has (users cl) userId then col_get (users cl) userId else None);
          meUserId = (case cl_user cl of Some u \<Rightarrow> Some (u_id u) | None \<Rightarrow> None);
          emojiId = js_or (rr_emoji_id d) (rr_emoji_name d);
          (message, reaction, cl1) =
            (if col_has (messages cl) messageId then
               (let m = the (col_get (messages cl) messageId)
                in if map_of (m_reactions m) emojiId \<noteq> None then
                     (let r = reaction_removed (the (map_of (m_reactions m) emojiId)) userId meUserId;
                          m1 = m\<lparr>m_reactions := AList.update emojiId r (m_reactions m)\<rparr>;
                          m2 = (if r_count r \<le> 0
                                then m1\<lparr>m_reactions := AList.delete emojiId (m_reactions m1)\<rparr>
                                else m1)
                      in (Some m2, Some r, cl\<lparr>messages := col_set (messages cl) messageId m2\<rparr>))
                   else (Some m, None, cl))
             else (None, None, cl));
          reaction1 = (case reaction of None \<Rightarrow> new_Reaction d | Some r \<Rightarrow> r);
          channel = (if col_has (channels cl1) channelId then col_get (channels cl1) channelId else None);
          guild = (case guildId of
                     Some g \<Rightarrow> if col_has (guilds cl1) g then col_get (guilds cl1) g else None
                   | None \<Rightarrow> None)
      in emit cl1 CE_MESSAGE_REACTION_REMOVE
           (PMessageReaction channel channelId guild guildId message messageId reaction1 user userId))"

subsection \<open>CHANNEL_PINS_UPDATE\<close>

record raw_pins =
  rpin_channel_id :: string
  rpin_guild_id :: "string option"
  rpin_last_pin_timestamp :: "string option"

definition on_CHANNEL_PINS_UPDATE :: "client \<Rightarrow> raw_pins \<Rightarrow> client" where
  "on_CHANNEL_PINS_UPDATE cl d =
     (let (channel, cl1) =
            (if col_has (channels cl) (rpin_channel_id d) then
               (let c = (the (col_get (channels cl) (rpin_channel_id d)))
                          \<lparr>c_lastPinTimestamp := rpin_last_pin_timestamp d\<rparr>
                in (Some c, cl\<lparr>channels := col_set (channels cl) (rpin_channel_id d) c\<rparr>))
             else (None, cl))
      in emit cl1 CE_CHANNEL_DELETE
           (PChannelPins channel (rpin_channel_id d) (rpin_guild_id d) (rpin_last_pin_timestamp d)))"

subsection \<open>GUILD_BAN_ADD and GUILD_BAN_REMOVE\<close>

record raw_ban =
  rb_guild_id :: string
  rb_user :: raw_user

definition on_GUILD_BAN_ADD :: "client \<Rightarrow> raw_ban \<Rightarrow> client" where
  "on_GUILD_BAN_ADD cl d =
     (let guild = col_get (users cl) (rb_guild_id d);
          guildId = rb_guild_id d;
          (user, cl1) =
            (if col_has (users cl) (ru_id (rb_user d)) then
               (let u = user_merge (the (col_get (users cl) (ru_id (rb_user d)))) (rb_user d)
                in (u, cl\<lparr>users := col_set (users cl) (ru_id (rb_user d)) u\<rparr>))
             else (new_User (rb_user d), cl))
      in emit cl1 CE_GUILD_BAN_ADD (PGuildBan guild guildId user))"

definition on_GUILD_BAN_REMOVE :: "client \<Rightarrow> raw_ban \<Rightarrow> client" where
  "on_GUILD_BAN_REMOVE cl d =
     (let guild = col_get (users cl) (rb_guild_id d);
          guildId = rb_guild_id d;
          (user, cl1) =
            (if col_has (users cl) (ru_id (rb_user d)) then
               (let u = user_merge (the (col_get (users cl) (ru_id (rb_user d)))) (rb_user d)
                in (u, cl\<lparr>users := col_set (users cl) (ru_id (rb_user d)) u\<rparr>))
             else (new_User (rb_user d), cl))
      in emit cl1 CE_GUILD_BAN_REMOVE (PGuildBan guild guildId user))"

subsection \<open>Update handlers that report differences\<close>

definition on_GUILD_UPDATE :: "client \<Rightarrow> raw_guild \<Rightarrow> client" where
  "on_GUILD_UPDATE cl d =
     (let (differences, guild, cl1) =
            (if col_has (guilds cl) (rg_id d) then
               (let g = the (col_get (guilds cl) (rg_id d));
                    (df, cl0) = (if hasEventListener cl CE_GUILD_UPDATE
                                 then (Val (guild_differences g d), cl\<lparr>diffCalls := Suc (diffCalls cl)\<rparr>)
                                 else (Null, cl));
                    g1 = guild_merge g d
                in (df, g1, cl0\<lparr>guilds := col_set (guilds cl0) (rg_id d) g1\<rparr>))
             else
               (let g = new_Guild d
                in (Null, g, cl\<lparr>guilds := col_insert (guilds cl) (g_id g) g\<rparr>)))
      in emit cl1 CE_GUILD_UPDATE (PGuildUpdate differences guild))"

definition on_CALL_UPDATE :: "client \<Rightarrow> raw_call \<Rightarrow> client" where
  "on_CALL_UPDATE cl d =
     (let (differences, call, cl1) =
            (if col_has (voiceCalls cl) (rvc_channel_id d) then
               (let c = the (col_get (voiceCalls cl) (rvc_channel_id d));
                    (df, cl0) = (if hasEventListener cl CE_CALL_UPDATE
                                 then (Val (call_differences c d), cl\<lparr>diffCalls := Suc (diffCalls cl)\<rparr>)
                                 else (Null, cl));
                    c1 = call_merge c d
                in (df, c1, cl0\<lparr>voiceCalls := col_set (voiceCalls cl0) (rvc_channel_id d) c1\<rparr>))
             else
               (let c = new_VoiceCall d
                in (Null, c, cl\<lparr>voiceCalls := col_insert (voiceCalls cl) (vc_channelId c) c\<rparr>)))
      in emit cl1 CE_CALL_UPDATE (PCallUpdate call differences))"

definition on_CHANNEL_UPDATE :: "client \<Rightarrow> raw_channel \<Rightarrow> client" where
  "on_CHANNEL_UPDATE cl d =
     (let (differences, channel, cl1) =
            (if col_has (channels cl) (rc_id d) then
               (let c = the (col_get (channels cl) (rc_id d));
                    (df, cl0) = (if hasEventListener cl CE_CHANNEL_UPDATE
                                 then (Val (channel_differences c d), cl\<lparr>diffCalls := Suc (diffCalls cl)\<rparr>)
                                 else (Null, cl));
                    c1 = channel_merge c d
                in (df, c1, cl0\<lparr>channels := col_set (channels cl0) (rc_id d) c1\<rparr>))
             else
               (let c = createChannelFromData d
                in (Null, c, cl\<lparr>channels := col_insert (channels cl) (c_id c) c\<rparr>)))
      in emit cl1 CE_CHANNEL_UPDATE (PChannelUpdate channel differences))"

text \<open>Here the source declares \<^verbatim>\<open>let differences: any;\<close> with no initial value.\<close>

definition on_MESSAGE_UPDATE :: "client \<Rightarrow> raw_message \<Rightarrow> client" where
  "on_MESSAGE_UPDATE cl d =
     (let (differences, message, cl1) =
            (if col_has (messages cl) (rm_id d) then
               (let m = the (col_get (messages cl) (rm_id d));
                    (df, cl0) = (if hasEventListener cl CE_MESSAGE_UPDATE
                                 then (Val (message_differences m d), cl\<lparr>diffCalls := Suc (diffCalls cl)\<rparr>)
                                 else (Undefined, cl));
                    m1 = message_merge m d
                in (df, m1, cl0\<lparr>messages := col_set (messages cl0) (rm_id d) m1\<rparr>))
             else
               (let m = new_Message d
                in (Undefined, m, cl\<lparr>messages := col_insert (messages cl) (m_id m) m\<rparr>)))
      in emit cl1 CE_MESSAGE_UPDATE (PMessageUpdate differences message))"

definition on_GUILD_MEMBER_UPDATE :: "client \<Rightarrow> raw_member \<Rightarrow> client" where
  "on_GUILD_MEMBER_UPDATE cl d =
     (let guildId = rmb_guild_id d; uid = ru_id (rmb_user d);
          (differences, member, cl1) =
            (if members_has (members cl) (Some guildId) (Some uid) then
               (let a = as_entity (members_get (members cl) (Some guildId) (Some uid));
                    (df, cl0) = (if hasEventListener cl CE_GUILD_MEMBER_UPDATE
                                 then (Val (member_differences (deref (members cl) a) d),
                                       cl\<lparr>diffCalls := Suc (diffCalls cl)\<rparr>)
                                 else (Null, cl))
                in (df, a, cl0\<lparr>members := tc_mutate (members cl0) a (\<lambda>m. member_merge m d)\<rparr>))
             else
               (let (a, mc) = tc_new (members cl) (new_Member d)
                in (Null, a, cl\<lparr>members := members_insert mc a\<rparr>)))
      in emit cl1 CE_GUILD_MEMBER_UPDATE (PGuildMemberUpdate differences guildId member))"

subsection \<open>READY\<close>

record raw_ready =
  rdy_user :: raw_user
  rdy_private_channels :: "raw_channel list option"
  rdy_guilds :: "raw_guild list"
  rdy_presences :: "raw_presence list option"

text \<open>
  Modelled from the spec: \<^verbatim>\<open>client.reset()\<close> (\<^verbatim>\<open>../client\<close>) is not part of the
  sources; it empties every repository and tier (spec 4.5). The handler's own set
  \<open>memberChunksLeft\<close> is not a repository and is left as it is.
\<close>

definition reset :: "client \<Rightarrow> client" where
  "reset cl = cl\<lparr>users := (users cl)\<lparr>col_entries := []\<rparr>,
     guilds := (guilds cl)\<lparr>col_entries := []\<rparr>,
     channels := (channels cl)\<lparr>col_entries := []\<rparr>,
     messages := (messages cl)\<lparr>col_entries := []\<rparr>,
     voiceCalls := (voiceCalls cl)\<lparr>col_entries := []\<rparr>,
     emojis := (emojis cl)\<lparr>col_entries := []\<rparr>,
     members := (members cl)\<lparr>tc_tiers := []\<rparr>,
     presences := (presences cl)\<lparr>tc_tiers := []\<rparr>\<rparr>"

text \<open>The body of \<^verbatim>\<open>for (let raw of data['guilds'])\<close>.\<close>

definition ready_guild :: "client \<Rightarrow> raw_guild \<Rightarrow> client" where
  "ready_guild cl raw =
     (let (guild, cl1) =
            (if col_has (guilds cl) (rg_id raw) then
               (let g = guild_merge (the (col_get (guilds cl) (rg_id raw))) raw
                in (g, cl\<lparr>guilds := col_set (guilds cl) (rg_id raw) g\<rparr>))
             else
               (let g = new_Guild raw
                in (g, cl\<lparr>guilds := col_insert (guilds cl) (g_id g) g\<rparr>)))
      in if shouldLoadAllMembers cl1 then
           (if g_unavailable guild then
              cl1\<lparr>memberChunksLeft := insert (g_id guild) (memberChunksLeft cl1)\<rparr>
            else if g_id guild \<in> memberChunksLeft cl1 then
              (let cl2 = (if largeThreshold cl1 < g_memberCount guild
                          then requestGuildMembers cl1 (g_id guild) else cl1)
               in cl2\<lparr>memberChunksLeft := memberChunksLeft cl2 - {g_id guild}\<rparr>)
            else cl1)
         else cl1)"

fun ready_guilds :: "client \<Rightarrow> raw_guild list \<Rightarrow> client" where
  "ready_guilds cl [] = cl"
| "ready_guilds cl (raw # raws) = ready_guilds (ready_guild cl raw) raws"

definition ready_channel :: "client \<Rightarrow> raw_channel \<Rightarrow> client" where
  "ready_channel cl raw =
     (if col_has (channels cl) (rc_id raw)
      then cl\<lparr>channels := col_set (channels cl) (rc_id raw)
                (channel_merge (the (col_get (channels cl) (rc_id raw))) raw)\<rparr>
      else cl\<lparr>channels := col_insert (channels cl) (c_id (createChannelFromData raw))
                (createChannelFromData raw)\<rparr>)"

fun ready_channels :: "client \<Rightarrow> raw_channel list \<Rightarrow> client" where
  "ready_channels cl [] = cl"
| "ready_channels cl (raw # raws) = ready_channels (ready_channel cl raw) raws"

fun ready_presences :: "client \<Rightarrow> raw_presence list \<Rightarrow> client" where
  "ready_presences cl [] = cl"
| "ready_presences cl (raw # raws) = ready_presences (snd (presences_add cl raw)) raws"

text \<open>
  The synchronous part of the READY handler, block by block, up to the
  \<^verbatim>\<open>GATEWAY_READY\<close> notification. Notes, relationships, sessions and the REST client
  have no counterpart in this model; the code after the notification awaits a REST call.
\<close>

definition ready_user :: "client \<Rightarrow> raw_ready \<Rightarrow> client" where
  "ready_user cl d =
     (let me = (case cl_user cl of None \<Rightarrow> new_User (rdy_user d)
                                 | Some u \<Rightarrow> user_merge u (rdy_user d));
          cl1 = cl\<lparr>cl_user := Some me\<rparr>
      in cl1\<lparr>users := col_insert (users cl1) (u_id me) me\<rparr>)"

definition ready_private_channels :: "client \<Rightarrow> raw_ready \<Rightarrow> client" where
  "ready_private_channels cl d =
     (if col_enabled (channels cl) then
        (case rdy_private_channels d of Some raws \<Rightarrow> ready_channels cl raws | None \<Rightarrow> cl)
      else cl)"

definition ready_all_guilds :: "client \<Rightarrow> raw_ready \<Rightarrow> client" where
  "ready_all_guilds cl d =
     (if col_enabled (guilds cl) then ready_guilds cl (rdy_guilds d) else cl)"

definition ready_all_presences :: "client \<Rightarrow> raw_ready \<Rightarrow> client" where
  "ready_all_presences cl d =
     (if tc_enabled (presences cl) then
        (case rdy_presences d of Some raws \<Rightarrow> ready_presences cl raws | None \<Rightarrow> cl)
      else cl)"

definition on_READY :: "client \<Rightarrow> raw_ready \<Rightarrow> client" where
  "on_READY cl d =
     emit (ready_all_presences
            (ready_all_guilds (ready_private_channels (ready_user (reset cl) d) d) d) d)
       CE_GATEWAY_READY PReady"

subsection \<open>GUILD_CREATE\<close>

definition on_GUILD_CREATE :: "client \<Rightarrow> raw_guild \<Rightarrow> client" where
  "on_GUILD_CREATE cl d =
     (let (fromUnavailable, guild, cl1) =
            (if col_has (guilds cl) (rg_id d) then
               (let g0 = the (col_get (guilds cl) (rg_id d));
                    g = guild_merge g0 d
                in (g_unavailable g0, g, cl\<lparr>guilds := col_set (guilds cl) (rg_id d) g\<rparr>))
             else
               (let g = new_Guild d;
                    cl0 = cl\<lparr>guilds := col_insert (guilds cl) (g_id g) g\<rparr>
                in (False, g,
                    if shouldLoadAllMembers cl0
                    then cl0\<lparr>memberChunksLeft := insert (g_id g) (memberChunksLeft cl0)\<rparr>
                    else cl0)));
          cl2 = (if g_id guild \<in> memberChunksLeft cl1 then
                   (let cl3 = (if loadAllMembers cl1 \<and> largeThreshold cl1 < g_memberCount guild
                               then requestGuildMembers cl1 (g_id guild) else cl1)
                    in cl3\<lparr>memberChunksLeft := memberChunksLeft cl3 - {rg_id d}\<rparr>)
                 else cl1)
      in emit cl2 CE_GUILD_CREATE (PGuildCreate fromUnavailable guild))"

subsection \<open>GUILD_DELETE\<close>



section \<open>The packet router (GatewayHandler)\<close>

text \<open>
  Modelled from the spec: \<^verbatim>\<open>String.prototype.toUpperCase\<close> on the ASCII letters; the
  gateway's event names are ASCII.
\<close>

definition toUpperCase_char :: "char \<Rightarrow> char" where
  "toUpperCase_char c =
     (if 97 \<le> (of_char c :: nat) \<and> (of_char c :: nat) \<le> 122
      then char_of ((of_char c :: nat) - 32) else c)"

definition toUpperCase :: "string \<Rightarrow> string" where
  "toUpperCase s = map toUpperCase_char s"

record gatewayHandlerOptions =
  opt_disabledEvents :: "string list option"
  opt_emitRawEvent :: "bool option"
  opt_loadAllMembers :: "bool option"

record gatewayHandler =
  disabledEvents :: "string set"
  emitRawEvent :: bool
  gh_loadAllMembers :: bool

text \<open>The constructor: the configured names are upper-cased, once.\<close>

definition new_GatewayHandler :: "gatewayHandlerOptions \<Rightarrow> gatewayHandler" where
  "new_GatewayHandler options =
     \<lparr>disabledEvents = set (map toUpperCase
         (case opt_disabledEvents options of None \<Rightarrow> [] | Some vs \<Rightarrow> vs)),
      emitRawEvent = (opt_emitRawEvent options = Some True),
      gh_loadAllMembers = (opt_loadAllMembers options = Some True)\<rparr>"

text \<open>
  Modelled from the spec: the opcode constant comes from the socket library, which is not
  part of the sources; dispatch packets have opcode 0.
\<close>

definition GatewayOpCodes_DISPATCH :: nat where
  "GatewayOpCodes_DISPATCH = 0"

record 'd packet =
  pk_op :: nat
  pk_t :: string
  pk_d :: 'd

text \<open>
  What \<^verbatim>\<open>onPacket\<close> does with one packet, in order: the raw-event notification, the
  call of the handler found under the packet's name, the unknown-event notification and
  the notification named after the raw event. \<open>getHandler\<close> tells whether the dispatch
  handler has a function under a name.
\<close>

datatype 'd router_action =
    EmitRawEvent string 'd
  | CallHandler string 'd
  | EmitUnknown string 'd
  | EmitNamed string 'd

definition onPacket :: "gatewayHandler \<Rightarrow> (string \<Rightarrow> bool) \<Rightarrow> 'd packet \<Rightarrow> 'd router_action list" where
  "onPacket h getHandler packet =
     (if pk_op packet \<noteq> GatewayOpCodes_DISPATCH then []
      else
        (if emitRawEvent h then [EmitRawEvent (pk_t packet) (pk_d packet)] else []) @
        (if pk_t packet \<notin> disabledEvents h then
           (if getHandler (pk_t packet) then [CallHandler (pk_t packet) (pk_d packet)]
            else [EmitUnknown (pk_t packet) (pk_d packet), EmitNamed (pk_t packet) (pk_d packet)])
         else []))"

section \<open>Observations and concrete inputs\<close>

text \<open>The user object the ban handlers put in their notification.\<close>

definition ban_user :: "client \<Rightarrow> raw_ban \<Rightarrow> user" where
  "ban_user cl d = (if col_has (users cl) (ru_id (rb_user d))
     then user_merge (the (col_get (users cl) (ru_id (rb_user d)))) (rb_user d)
     else new_User (rb_user d))"

text \<open>A cached message \<open>M\<close> with one reaction \<open>E\<close> of count 2, and the removal of one \<open>E\<close>.\<close>

definition msg_two :: message where
  "msg_two = \<lparr>m_id = ''M'', m_channelId = ''C'', m_content = ''hi'',
     m_reactions = [(''E'', \<lparr>r_emoji = ''E'', r_count = 2, r_me = False\<rparr>)]\<rparr>"

definition ev_remove_E :: raw_reaction where
  "ev_remove_E = \<lparr>rr_channel_id = ''C'', rr_guild_id = None, rr_message_id = ''M'',
     rr_user_id = ''U'', rr_emoji_id = None, rr_emoji_name = ''E''\<rparr>"

definition cl_msg_two :: client where
  "cl_msg_two = new_client\<lparr>messages := col_set (messages new_client) ''M'' msg_two\<rparr>"

text \<open>A client that has guild \<open>G\<close> cached and no user with id \<open>G\<close>; a ban in \<open>G\<close>.\<close>

definition guild_G :: guild where
  "guild_G = \<lparr>g_id = ''G'', g_name = ''guild'', g_unavailable = False, g_memberCount = 10\<rparr>"

definition cl_guild_G :: client where
  "cl_guild_G = new_client\<lparr>guilds := col_set (guilds new_client) ''G'' guild_G\<rparr>"

definition ev_ban :: raw_ban where
  "ev_ban = \<lparr>rb_guild_id = ''G'', rb_user = \<lparr>ru_id = ''U'', ru_username = Some ''bob''\<rparr>\<rparr>"

text \<open>An edit of the cached message \<open>M\<close>.\<close>

definition ev_edit :: raw_message where
  "ev_edit = \<lparr>rm_id = ''M'', rm_channel_id = None, rm_content = Some ''edited''\<rparr>"

text \<open>
  A packet's event name matches a configured deny-list entry under case-insensitive
  comparison.
\<close>

definition matches_ci :: "string \<Rightarrow> string list \<Rightarrow> bool" where
  "matches_ci name vs = (\<exists>v \<in> set vs. toUpperCase v = toUpperCase name)"

definition opts_deny :: gatewayHandlerOptions where
  "opts_deny = \<lparr>opt_disabledEvents = Some [''GUILD_CREATE''], opt_emitRawEvent = None,
     opt_loadAllMembers = None\<rparr>"

text \<open>A dispatch table with three of the handlers.\<close>

definition known_events :: "string \<Rightarrow> bool" where
  "known_events n = (n \<in> {''GUILD_CREATE'', ''GUILD_DELETE'', ''PRESENCE_UPDATE''})"

definition pk_lower :: "unit packet" where
  "pk_lower = \<lparr>pk_op = 0, pk_t = ''guild_create'', pk_d = ()\<rparr>"

definition pk_upper :: "unit packet" where
  "pk_upper = \<lparr>pk_op = 0, pk_t = ''GUILD_CREATE'', pk_d = ()\<rparr>"

text \<open>
  Presence updates for user \<open>U\<close> in guild \<open>G\<close>, and the client after \<open>U\<close> came online
  there: a fresh client that has processed the online update.
\<close>

definition ev_presence :: "string \<Rightarrow> raw_presence" where
  "ev_presence st = \<lparr>rp_guild_id = Some ''G'', rp_user = \<lparr>ru_id = ''U'', ru_username = None\<rparr>,
     rp_status = Some st, rp_nick = None, rp_roles = None\<rparr>"

definition cl_online :: client where
  "cl_online = on_PRESENCE_UPDATE new_client (ev_presence ''online'')"



text \<open>The guild object GUILD_CREATE and the READY loop end up with: merged or new.\<close>

definition created_guild :: "client \<Rightarrow> raw_guild \<Rightarrow> guild" where
  "created_guild cl d = (if col_has (guilds cl) (rg_id d)
     then guild_merge (the (col_get (guilds cl) (rg_id d))) d else new_Guild d)"

text \<open>
  A bootstrap snapshot with two guilds: \<open>G\<close>, unavailable, with 5000 members, and \<open>H\<close>,
  available, with 10 members. The fresh client has the large threshold 250. Then the full
  snapshot of \<open>G\<close> as GUILD_CREATE delivers it.
\<close>

definition raw_G_unavailable :: raw_guild where
  "raw_G_unavailable = \<lparr>rg_id = ''G'', rg_name = None, rg_unavailable = Some True,
     rg_member_count = Some 5000\<rparr>"

definition raw_H :: raw_guild where
  "raw_H = \<lparr>rg_id = ''H'', rg_name = Some ''small'', rg_unavailable = None,
     rg_member_count = Some 10\<rparr>"

definition ev_ready :: raw_ready where
  "ev_ready = \<lparr>rdy_user = \<lparr>ru_id = ''me'', ru_username = Some ''bot''\<rparr>,
     rdy_private_channels = None, rdy_guilds = [raw_G_unavailable, raw_H],
     rdy_presences = None\<rparr>"

definition cl_ready :: client where
  "cl_ready = on_READY new_client ev_ready"

definition raw_G_full :: raw_guild where
  "raw_G_full = \<lparr>rg_id = ''G'', rg_name = Some ''large'', rg_unavailable = Some False,
     rg_member_count = Some 5000\<rparr>"

text \<open>
  A client whose guild cache is disabled, with \<open>G\<close> in the pending set.
\<close>

definition cl_uncached :: client where
  "cl_uncached = new_client\<lparr>guilds := new_collection False, memberChunksLeft := {''G''}\<rparr>"

definition ev_ready_G :: raw_ready where
  "ev_ready_G = \<lparr>rdy_user = \<lparr>ru_id = ''me'', ru_username = Some ''bot''\<rparr>,
     rdy_private_channels = None, rdy_guilds = [raw_G_full], rdy_presences = None\<rparr>"



section \<open>The lookup-or-create-and-merge step, by reference\<close>

text \<open>
  Every handler resolves an entity with the same step:
  \<^verbatim>\<open>if (repo.has(id)) { e = repo.get(id); e.merge(data) } else { e = new E(client, data); repo.insert(e) }\<close>
  (GUILD_UPDATE, GUILD_CREATE, CALL_UPDATE, CHANNEL_UPDATE, MESSAGE_UPDATE, .. for the flat
  repositories; GUILD_MEMBER_UPDATE, PRESENCE_UPDATE, TYPING_START, .. for the tiered
  caches). The handlers above keep the flat repositories by value, which is enough for
  what they store and emit; which object a key refers to is a question about references,
  so here the step is modelled once more with the repository as an index from keys to
  addresses of an object store. \<open>rc_view\<close> reads such a repository by value.
\<close>

record 'v rcollection =
  rc_enabled :: bool
  rc_index :: "(string \<times> nat) list"
  rc_heap :: "nat \<Rightarrow> 'v option"
  rc_next :: nat

definition rc_has :: "'v rcollection \<Rightarrow> string \<Rightarrow> bool" where
  "rc_has rc k = (map_of (rc_index rc) k \<noteq> None)"

definition rc_get :: "'v rcollection \<Rightarrow> string \<Rightarrow> nat option" where
  "rc_get rc k = map_of (rc_index rc) k"

definition rc_deref :: "'v rcollection \<Rightarrow> nat \<Rightarrow> 'v" where
  "rc_deref rc a = the (rc_heap rc a)"

definition rc_new :: "'v rcollection \<Rightarrow> 'v \<Rightarrow> nat \<times> 'v rcollection" where
  "rc_new rc v = (rc_next rc, rc\<lparr>rc_heap := (rc_heap rc)(rc_next rc \<mapsto> v), rc_next := Suc (rc_next rc)\<rparr>)"

definition rc_mutate :: "'v rcollection \<Rightarrow> nat \<Rightarrow> ('v \<Rightarrow> 'v) \<Rightarrow> 'v rcollection" where
  "rc_mutate rc a f = rc\<lparr>rc_heap := (rc_heap rc)(a \<mapsto> f (rc_deref rc a))\<rparr>"

definition rc_insert :: "'v rcollection \<Rightarrow> string \<Rightarrow> nat \<Rightarrow> 'v rcollection" where
  "rc_insert rc k a = (if rc_enabled rc then rc\<lparr>rc_index := AList.update k a (rc_index rc)\<rparr> else rc)"

text \<open>
  The step on a flat repository, for an entity kind given by its \<open>merge\<close>, its
  constructor \<open>new\<close> and its id; \<open>key\<close> is the id the payload carries. The result is
  the object the handler goes on with.
\<close>

definition resolve ::
  "('v \<Rightarrow> 'r \<Rightarrow> 'v) \<Rightarrow> ('r \<Rightarrow> 'v) \<Rightarrow> ('v \<Rightarrow> string) \<Rightarrow> 'v rcollection \<Rightarrow> string \<Rightarrow> 'r
     \<Rightarrow> nat \<times> 'v rcollection" where
  "resolve merge new id_of rc key d =
     (if rc_has rc key then
        (let a = the (rc_get rc key) in (a, rc_mutate rc a (\<lambda>e. merge e d)))
      else
        (let (a, rc1) = rc_new rc (new d) in (a, rc_insert rc1 (id_of (rc_deref rc1 a)) a)))"

definition rc_view :: "'v rcollection \<Rightarrow> 'v collection" where
  "rc_view rc = \<lparr>col_enabled = rc_enabled rc,
     col_entries = map (\<lambda>(k, a). (k, rc_deref rc a)) (rc_index rc)\<rparr>"

text \<open>
  Keys are unique (a \<^verbatim>\<open>Map\<close>), no object is stored under two keys, and every stored
  address has been allocated.
\<close>

definition rc_wf :: "'v rcollection \<Rightarrow> bool" where
  "rc_wf rc = (distinct (map fst (rc_index rc)) \<and> distinct (map snd (rc_index rc))
     \<and> (\<forall>a \<in> snd ` set (rc_index rc). a < rc_next rc))"

text \<open>
  The step on a tiered cache. \<open>tier_insert\<close> is \<^verbatim>\<open>TypingCollection.insert\<close>
  (\<^verbatim>\<open>if (this.enabled) { const cache = this.insertCache(typing.channelId); cache.set(typing.userId, typing) }\<close>)
  for an entity kind given by its two key fields.
\<close>

definition tier_insert :: "('v \<Rightarrow> string) \<Rightarrow> ('v \<Rightarrow> string) \<Rightarrow> 'v tcache \<Rightarrow> nat \<Rightarrow> 'v tcache" where
  "tier_insert cache_of key_of c a =
     (if tc_enabled c then
        (let c1 = presences_insertCache c (cache_of (deref c a));
             cache = the (map_of (tc_tiers c1) (cache_of (deref c a)))
         in c1\<lparr>tc_tiers := AList.update (cache_of (deref c a))
                  (AList.update (key_of (deref c a)) a cache) (tc_tiers c1)\<rparr>)
      else c)"

definition resolve_tier ::
  "('v \<Rightarrow> 'r \<Rightarrow> 'v) \<Rightarrow> ('r \<Rightarrow> 'v) \<Rightarrow> ('v \<Rightarrow> string) \<Rightarrow> ('v \<Rightarrow> string) \<Rightarrow> 'v tcache
     \<Rightarrow> string \<Rightarrow> string \<Rightarrow> 'r \<Rightarrow> nat \<times> 'v tcache" where
  "resolve_tier merge new cache_of key_of c cid uid d =
     (if presences_has c (Some cid) (Some uid) then
        (let a = as_entity (presences_get c (Some cid) (Some uid))
         in (a, tc_mutate c a (\<lambda>e. merge e d)))
      else
        (let (a, c1) = tc_new c (new d) in (a, tier_insert cache_of key_of c1 a)))"


section \<open>Evaluation rules\<close>

lemmas col_defs = col_has_def col_get_def col_set_def col_delete_def col_insert_def
  new_collection_def

lemmas tc_defs = presences_insertCache_def presences_delete_def presences_get_def
  presences_has_def members_has_def members_get_def members_delete_def members_insert_def
  tc_new_def tc_mutate_def deref_def new_tcache_def

lemmas js_defs = truthy_def js_or_def DEFAULT_PRESENCE_CACHE_KEY_def

lemmas entity_defs = user_merge_def new_User_def guild_merge_def new_Guild_def
  channel_merge_def createChannelFromData_def call_merge_def new_VoiceCall_def
  message_merge_def new_Message_def presence_merge_def new_Presence_def presence_absorb_def
  isOffline_def fromGuild_def cacheId_of_def member_merge_def new_Member_def new_Reaction_def
  reaction_removed_def

lemmas client_defs = emit_def hasEventListener_def shouldLoadAllMembers_def
  requestGuildMembers_def new_client_def

section \<open>Reaction removal\<close>

lemma reaction_removed_count: "r_count (reaction_removed r u me) = min (r_count r - 1) 0"
  by (simp add: reaction_removed_def)

lemma reaction_removed_nonpositive: "r_count (reaction_removed r u me) \<le> 0"
  by (simp add: reaction_removed_def)

text \<open>
  C2 (the code departs from the claim). Removing one reaction \<open>E\<close> from a cached message
  whose reaction \<open>E\<close> has count 2 should leave the entry with count 1. The handler takes
  \<open>min (count - 1) 0\<close>: the count becomes 0, the entry is dropped from the message's
  reaction set, and the notification carries the reaction with count 0.
\<close>

theorem reaction_remove_from_two:
  "col_get (messages (on_MESSAGE_REACTION_REMOVE cl_msg_two ev_remove_E)) ''M''
     = Some (msg_two\<lparr>m_reactions := []\<rparr>)
   \<and> emitted (on_MESSAGE_REACTION_REMOVE cl_msg_two ev_remove_E) =
       [(CE_MESSAGE_REACTION_REMOVE, PMessageReaction None ''C'' None None
          (Some (msg_two\<lparr>m_reactions := []\<rparr>)) ''M''
          \<lparr>r_emoji = ''E'', r_count = 0, r_me = False\<rparr> None ''U'')]"
  by (simp add: on_MESSAGE_REACTION_REMOVE_def cl_msg_two_def ev_remove_E_def msg_two_def
        col_defs js_defs entity_defs client_defs Let_def)

section \<open>The notification of CHANNEL_PINS_UPDATE\<close>

text \<open>
  C7 (the code departs from the claim). Whatever the client state and the event, the
  channel-pins-update handler emits exactly one notification, and that notification is
  named \<open>CHANNEL_DELETE\<close>, not \<open>CHANNEL_PINS_UPDATE\<close>.
\<close>

theorem channel_pins_update_emits_channel_delete:
  "\<exists>p. emitted (on_CHANNEL_PINS_UPDATE cl d) = emitted cl @ [(CE_CHANNEL_DELETE, p)]
     \<and> CE_CHANNEL_DELETE \<noteq> CE_CHANNEL_PINS_UPDATE"
  by (simp add: on_CHANNEL_PINS_UPDATE_def emit_def Let_def split: prod.splits)

section \<open>The guild reference of ban notifications\<close>

text \<open>
  C10. In GUILD_BAN_ADD and GUILD_BAN_REMOVE the \<open>guild\<close> field of the notification is
  the result of looking the ban's guild id up in the user repository; the guild
  repository is not consulted. So when no user has that id the field is undefined
  (\<open>None\<close>), whether or not the guild is cached.
\<close>

theorem ban_guild_looked_up_in_users:
  "emitted (on_GUILD_BAN_ADD cl d) =
     emitted cl @ [(CE_GUILD_BAN_ADD,
        PGuildBan (col_get (users cl) (rb_guild_id d)) (rb_guild_id d) (ban_user cl d))]
   \<and> emitted (on_GUILD_BAN_REMOVE cl d) =
     emitted cl @ [(CE_GUILD_BAN_REMOVE,
        PGuildBan (col_get (users cl) (rb_guild_id d)) (rb_guild_id d) (ban_user cl d))]
   \<and> (\<not> col_has (users cl) (rb_guild_id d) \<longrightarrow>
        emitted (on_GUILD_BAN_ADD cl d) =
          emitted cl @ [(CE_GUILD_BAN_ADD, PGuildBan None (rb_guild_id d) (ban_user cl d))]
      \<and> emitted (on_GUILD_BAN_REMOVE cl d) =
          emitted cl @ [(CE_GUILD_BAN_REMOVE, PGuildBan None (rb_guild_id d) (ban_user cl d))])"
  by (simp add: on_GUILD_BAN_ADD_def on_GUILD_BAN_REMOVE_def ban_user_def emit_def Let_def
        col_has_def col_get_def)

theorem ban_guild_looked_up_in_users_witness:
  "col_has (guilds cl_guild_G) ''G'' \<and> \<not> col_has (users cl_guild_G) ''G''
   \<and> emitted (on_GUILD_BAN_ADD cl_guild_G ev_ban) =
       [(CE_GUILD_BAN_ADD, PGuildBan None ''G'' \<lparr>u_id = ''U'', u_username = ''bob''\<rparr>)]
   \<and> emitted (on_GUILD_BAN_REMOVE cl_guild_G ev_ban) =
       [(CE_GUILD_BAN_REMOVE, PGuildBan None ''G'' \<lparr>u_id = ''U'', u_username = ''bob''\<rparr>)]"
  using ban_guild_looked_up_in_users [of cl_guild_G ev_ban]
  by (simp add: cl_guild_G_def ev_ban_def guild_G_def ban_user_def col_defs entity_defs client_defs)

section \<open>Lazy differences\<close>

text \<open>
  GUILD_UPDATE, CALL_UPDATE and CHANNEL_UPDATE: with no observer the differences are
  \<open>Null\<close> and nothing is computed; with an observer and a cached entity they are
  computed from the entity as it was before the merge.
\<close>

lemma guild_update_unobserved:
  assumes "\<not> hasEventListener cl CE_GUILD_UPDATE"
  shows "\<exists>g. emitted (on_GUILD_UPDATE cl d) = emitted cl @ [(CE_GUILD_UPDATE, PGuildUpdate Null g)]"
    and "diffCalls (on_GUILD_UPDATE cl d) = diffCalls cl"
  using assms by (simp_all add: on_GUILD_UPDATE_def emit_def Let_def split: prod.splits)

lemma guild_update_observed:
  assumes "hasEventListener cl CE_GUILD_UPDATE" and "col_get (guilds cl) (rg_id d) = Some g"
  shows "emitted (on_GUILD_UPDATE cl d) =
           emitted cl @ [(CE_GUILD_UPDATE, PGuildUpdate (Val (guild_differences g d)) (guild_merge g d))]"
    and "diffCalls (on_GUILD_UPDATE cl d) = Suc (diffCalls cl)"
  using assms by (simp_all add: on_GUILD_UPDATE_def emit_def Let_def col_has_def col_get_def)

lemma call_update_unobserved:
  assumes "\<not> hasEventListener cl CE_CALL_UPDATE"
  shows "\<exists>c. emitted (on_CALL_UPDATE cl d) = emitted cl @ [(CE_CALL_UPDATE, PCallUpdate c Null)]"
    and "diffCalls (on_CALL_UPDATE cl d) = diffCalls cl"
  using assms by (simp_all add: on_CALL_UPDATE_def emit_def Let_def split: prod.splits)

lemma call_update_observed:
  assumes "hasEventListener cl CE_CALL_UPDATE"
    and "col_get (voiceCalls cl) (rvc_channel_id d) = Some c"
  shows "emitted (on_CALL_UPDATE cl d) =
           emitted cl @ [(CE_CALL_UPDATE, PCallUpdate (call_merge c d) (Val (call_differences c d)))]"
    and "diffCalls (on_CALL_UPDATE cl d) = Suc (diffCalls cl)"
  using assms by (simp_all add: on_CALL_UPDATE_def emit_def Let_def col_has_def col_get_def)

lemma channel_update_unobserved:
  assumes "\<not> hasEventListener cl CE_CHANNEL_UPDATE"
  shows "\<exists>c. emitted (on_CHANNEL_UPDATE cl d) =
               emitted cl @ [(CE_CHANNEL_UPDATE, PChannelUpdate c Null)]"
    and "diffCalls (on_CHANNEL_UPDATE cl d) = diffCalls cl"
  using assms by (simp_all add: on_CHANNEL_UPDATE_def emit_def Let_def split: prod.splits)

lemma channel_update_observed:
  assumes "hasEventListener cl CE_CHANNEL_UPDATE" and "col_get (channels cl) (rc_id d) = Some c"
  shows "emitted (on_CHANNEL_UPDATE cl d) =
           emitted cl @ [(CE_CHANNEL_UPDATE,
              PChannelUpdate (channel_merge c d) (Val (channel_differences c d)))]"
    and "diffCalls (on_CHANNEL_UPDATE cl d) = Suc (diffCalls cl)"
  using assms by (simp_all add: on_CHANNEL_UPDATE_def emit_def Let_def col_has_def col_get_def)

text \<open>
  C6 (the code departs from the claim). MESSAGE_UPDATE is an update handler that reports
  differences, but it declares the variable without the initial \<open>null\<close> its siblings
  give it: with no observer registered, an edit of a cached message emits differences
  that are \<open>Undefined\<close>, not \<open>Null\<close>.
\<close>

theorem message_update_unobserved_undefined:
  "listeners cl_msg_two = {}
   \<and> emitted (on_MESSAGE_UPDATE cl_msg_two ev_edit) =
       [(CE_MESSAGE_UPDATE, PMessageUpdate Undefined (msg_two\<lparr>m_content := ''edited''\<rparr>))]
   \<and> (Undefined :: string list jsval) \<noteq> Null"
  by (simp add: on_MESSAGE_UPDATE_def cl_msg_two_def ev_edit_def msg_two_def
        col_defs entity_defs client_defs Let_def)

section \<open>The deny-list of the packet router\<close>

lemma toUpperCase_lower: "toUpperCase ''guild_create'' = ''GUILD_CREATE''"
  by code_simp

lemma toUpperCase_upper: "toUpperCase ''GUILD_CREATE'' = ''GUILD_CREATE''"
  by code_simp

lemma toUpperCase_mixed: "toUpperCase ''guild_Create'' = ''GUILD_CREATE''"
  by code_simp

text \<open>
  C8, as stated, fails: the configured names are upper-cased but the packet's name is
  looked up as it is. The packet named \<open>guild_create\<close> matches the deny-list entry
  \<open>GUILD_CREATE\<close> under case-insensitive comparison, and the router still goes on to the
  handler lookup and emits the unknown-event notification.
\<close>

theorem deny_list_lowercase_packet:
  "matches_ci (pk_t pk_lower) [''GUILD_CREATE'']
   \<and> onPacket (new_GatewayHandler opts_deny) known_events pk_lower
       = [EmitUnknown ''guild_create'' (), EmitNamed ''guild_create'' ()]"
  by (simp add: matches_ci_def pk_lower_def opts_deny_def new_GatewayHandler_def onPacket_def
       GatewayOpCodes_DISPATCH_def toUpperCase_lower toUpperCase_upper known_events_def)

text \<open>
  C8, amended. For every dispatch packet whose event name is in upper case (as the
  gateway sends it) and matches an entry of the configured deny-list under
  case-insensitive comparison, the router does nothing beyond the optional raw-event
  passthrough: no handler is called and no unknown-event notification is emitted.
\<close>

theorem deny_list_stops_router:
  assumes "pk_op packet = GatewayOpCodes_DISPATCH"
    and "toUpperCase (pk_t packet) = pk_t packet"
    and "matches_ci (pk_t packet) vs"
  shows "onPacket (new_GatewayHandler
            \<lparr>opt_disabledEvents = Some vs, opt_emitRawEvent = er, opt_loadAllMembers = la\<rparr>)
            getHandler packet
         = (if er = Some True then [EmitRawEvent (pk_t packet) (pk_d packet)] else [])"
proof -
  from assms(3) obtain v where v: "v \<in> set vs" "toUpperCase v = toUpperCase (pk_t packet)"
    by (auto simp: matches_ci_def)
  with assms(2) have "pk_t packet \<in> toUpperCase ` set vs" by (metis image_eqI)
  with assms(1) show ?thesis by (simp add: onPacket_def new_GatewayHandler_def)
qed

theorem deny_list_stops_router_witness:
  "pk_op pk_upper = GatewayOpCodes_DISPATCH \<and> toUpperCase (pk_t pk_upper) = pk_t pk_upper
   \<and> matches_ci (pk_t pk_upper) [''guild_Create'']
   \<and> onPacket (new_GatewayHandler \<lparr>opt_disabledEvents = Some [''guild_Create''],
          opt_emitRawEvent = Some True, opt_loadAllMembers = None\<rparr>)
        known_events pk_upper = [EmitRawEvent ''GUILD_CREATE'' ()]"
proof -
  have h1: "pk_op pk_upper = GatewayOpCodes_DISPATCH"
    by (simp add: pk_upper_def GatewayOpCodes_DISPATCH_def)
  have h2: "toUpperCase (pk_t pk_upper) = pk_t pk_upper"
    by (simp add: pk_upper_def toUpperCase_upper)
  have h3: "matches_ci (pk_t pk_upper) [''guild_Create'']"
    by (simp add: matches_ci_def pk_upper_def toUpperCase_mixed toUpperCase_upper)
  show ?thesis
    using deny_list_stops_router [OF h1 h2 h3, of "Some True" None known_events] h1 h2 h3
    by (simp add: pk_upper_def)
qed

section \<open>The client after a first presence update\<close>


section \<open>Cascade on guild deletion\<close>







section \<open>Member chunk coordination\<close>

lemma g_id_created [simp]: "g_id (created_guild cl d) = rg_id d"
  by (simp add: created_guild_def guild_merge_def new_Guild_def)

lemma guild_create_requested:
  "requested (on_GUILD_CREATE cl d) =
     requested cl @
       (if (rg_id d \<in> memberChunksLeft cl \<or> (\<not> col_has (guilds cl) (rg_id d) \<and> shouldLoadAllMembers cl))
           \<and> loadAllMembers cl \<and> largeThreshold cl < g_memberCount (created_guild cl d)
        then [rg_id d] else [])"
  by (simp add: on_GUILD_CREATE_def created_guild_def emit_def requestGuildMembers_def Let_def
        shouldLoadAllMembers_def guild_merge_def new_Guild_def)

lemma guild_create_pending:
  "memberChunksLeft (on_GUILD_CREATE cl d) = memberChunksLeft cl - {rg_id d}"
  by (auto simp: on_GUILD_CREATE_def emit_def requestGuildMembers_def Let_def
        shouldLoadAllMembers_def guild_merge_def new_Guild_def)

lemma guild_create_cached:
  "col_enabled (guilds cl) \<Longrightarrow>
     col_get (guilds (on_GUILD_CREATE cl d)) (rg_id d) = Some (created_guild cl d)"
  by (simp add: on_GUILD_CREATE_def created_guild_def emit_def requestGuildMembers_def Let_def
        col_defs update_conv' guild_merge_def new_Guild_def)

lemma guild_create_frame:
  "loadAllMembers (on_GUILD_CREATE cl d) = loadAllMembers cl"
  "largeThreshold (on_GUILD_CREATE cl d) = largeThreshold cl"
  "guildSubscriptions (on_GUILD_CREATE cl d) = guildSubscriptions cl"
  "col_enabled (guilds (on_GUILD_CREATE cl d)) = col_enabled (guilds cl)"
  by (simp_all add: on_GUILD_CREATE_def emit_def requestGuildMembers_def Let_def col_defs)

lemma ready_guild_requested:
  "requested (ready_guild cl raw) =
     requested cl @
       (if shouldLoadAllMembers cl \<and> \<not> g_unavailable (created_guild cl raw)
           \<and> rg_id raw \<in> memberChunksLeft cl
           \<and> largeThreshold cl < g_memberCount (created_guild cl raw)
        then [rg_id raw] else [])"
  by (simp add: ready_guild_def created_guild_def requestGuildMembers_def Let_def
        shouldLoadAllMembers_def guild_merge_def new_Guild_def)

lemma ready_guild_pending:
  "memberChunksLeft (ready_guild cl raw) =
     (if shouldLoadAllMembers cl
      then (if g_unavailable (created_guild cl raw)
            then insert (rg_id raw) (memberChunksLeft cl)
            else memberChunksLeft cl - {rg_id raw})
      else memberChunksLeft cl)"
  by (auto simp: ready_guild_def created_guild_def requestGuildMembers_def Let_def
        shouldLoadAllMembers_def guild_merge_def new_Guild_def)

lemma ready_guild_cached:
  "col_enabled (guilds cl) \<Longrightarrow>
     col_get (guilds (ready_guild cl raw)) (rg_id raw) = Some (created_guild cl raw)"
  by (simp add: ready_guild_def created_guild_def requestGuildMembers_def Let_def
        col_defs update_conv' guild_merge_def new_Guild_def)

lemma ready_guild_other:
  "g \<noteq> rg_id raw \<Longrightarrow> col_get (guilds (ready_guild cl raw)) g = col_get (guilds cl) g"
  by (simp add: ready_guild_def requestGuildMembers_def Let_def
        col_defs update_conv' guild_merge_def new_Guild_def)

lemma ready_guild_frame:
  "loadAllMembers (ready_guild cl raw) = loadAllMembers cl"
  "largeThreshold (ready_guild cl raw) = largeThreshold cl"
  "guildSubscriptions (ready_guild cl raw) = guildSubscriptions cl"
  "col_enabled (guilds (ready_guild cl raw)) = col_enabled (guilds cl)"
  "shouldLoadAllMembers (ready_guild cl raw) = shouldLoadAllMembers cl"
  by (simp_all add: ready_guild_def requestGuildMembers_def Let_def col_defs shouldLoadAllMembers_def)

text \<open>
  C4, amended. With bulk member loading enabled, when the full snapshot of a scope in the
  pending set arrives through GUILD_CREATE, exactly one full-roster request is issued if
  the scope's member count exceeds the large threshold and none otherwise, and the scope
  leaves the pending set either way; when the guild cache is enabled, so that this first
  signal leaves the scope cached, a second GUILD_CREATE for the same scope issues no
  request. The same holds when the snapshot arrives at bootstrap, in the step of the READY
  handler's loop for an available guild (the loop runs only with the guild cache enabled).
\<close>

theorem chunk_request_once:
  assumes "loadAllMembers cl" and "rg_id d \<in> memberChunksLeft cl" and "rg_id d' = rg_id d"
  shows "requested (on_GUILD_CREATE cl d) =
           requested cl @ (if largeThreshold cl < g_memberCount (created_guild cl d)
                           then [rg_id d] else [])
       \<and> rg_id d \<notin> memberChunksLeft (on_GUILD_CREATE cl d)
       \<and> (col_enabled (guilds cl) \<longrightarrow>
            requested (on_GUILD_CREATE (on_GUILD_CREATE cl d) d') = requested (on_GUILD_CREATE cl d))
       \<and> (guildSubscriptions cl \<and> col_enabled (guilds cl)
            \<and> \<not> g_unavailable (created_guild cl d) \<longrightarrow>
            requested (ready_guild cl d) =
              requested cl @ (if largeThreshold cl < g_memberCount (created_guild cl d)
                              then [rg_id d] else [])
          \<and> rg_id d \<notin> memberChunksLeft (ready_guild cl d)
          \<and> requested (on_GUILD_CREATE (ready_guild cl d) d') = requested (ready_guild cl d))"
proof -
  have a: "requested (on_GUILD_CREATE cl d) =
           requested cl @ (if largeThreshold cl < g_memberCount (created_guild cl d)
                           then [rg_id d] else [])"
    using assms(1,2) by (simp add: guild_create_requested)
  have b: "rg_id d \<notin> memberChunksLeft (on_GUILD_CREATE cl d)"
    by (simp add: guild_create_pending)
  have c: "requested (on_GUILD_CREATE (on_GUILD_CREATE cl d) d') = requested (on_GUILD_CREATE cl d)"
    if en: "col_enabled (guilds cl)"
  proof -
    have cached: "col_has (guilds (on_GUILD_CREATE cl d)) (rg_id d)"
      using guild_create_cached [OF en, of d] by (simp add: col_has_def col_get_def)
    show ?thesis using b cached by (simp add: guild_create_requested assms(3))
  qed
  have r: "requested (ready_guild cl d) =
              requested cl @ (if largeThreshold cl < g_memberCount (created_guild cl d)
                              then [rg_id d] else [])
          \<and> rg_id d \<notin> memberChunksLeft (ready_guild cl d)
          \<and> requested (on_GUILD_CREATE (ready_guild cl d) d') = requested (ready_guild cl d)"
    if sub: "guildSubscriptions cl" and en: "col_enabled (guilds cl)"
      and av: "\<not> g_unavailable (created_guild cl d)"
  proof -
    have sl: "shouldLoadAllMembers cl" using assms(1) sub by (simp add: shouldLoadAllMembers_def)
    have r1: "requested (ready_guild cl d) =
              requested cl @ (if largeThreshold cl < g_memberCount (created_guild cl d)
                              then [rg_id d] else [])"
      using sl av assms(2) by (simp add: ready_guild_requested)
    have r2: "rg_id d \<notin> memberChunksLeft (ready_guild cl d)"
      using sl av by (simp add: ready_guild_pending)
    have rc: "col_has (guilds (ready_guild cl d)) (rg_id d)"
      using ready_guild_cached [OF en, of d] by (simp add: col_has_def col_get_def)
    have r3: "requested (on_GUILD_CREATE (ready_guild cl d) d') = requested (ready_guild cl d)"
      using r2 rc by (simp add: guild_create_requested assms(3))
    from r1 r2 r3 show ?thesis by simp
  qed
  from a b c r show ?thesis by blast
qed

lemma ready_guilds_append:
  "ready_guilds cl (xs @ ys) = ready_guilds (ready_guilds cl xs) ys"
  by (induction xs arbitrary: cl) simp_all

lemma ready_guilds_frame:
  "shouldLoadAllMembers (ready_guilds cl raws) = shouldLoadAllMembers cl
   \<and> largeThreshold (ready_guilds cl raws) = largeThreshold cl
   \<and> col_enabled (guilds (ready_guilds cl raws)) = col_enabled (guilds cl)"
  by (induction raws arbitrary: cl) (simp_all add: ready_guild_frame)

lemma ready_guilds_other:
  "g \<notin> rg_id ` set raws \<Longrightarrow>
     col_get (guilds (ready_guilds cl raws)) g = col_get (guilds cl) g
     \<and> count_list (requested (ready_guilds cl raws)) g = count_list (requested cl) g
     \<and> (g \<in> memberChunksLeft (ready_guilds cl raws) \<longleftrightarrow> g \<in> memberChunksLeft cl)"
proof (induction raws arbitrary: cl)
  case Nil
  then show ?case by simp
next
  case (Cons raw raws)
  then have ne: "g \<noteq> rg_id raw" and rest: "g \<notin> rg_id ` set raws" by auto
  have step: "col_get (guilds (ready_guild cl raw)) g = col_get (guilds cl) g
     \<and> count_list (requested (ready_guild cl raw)) g = count_list (requested cl) g
     \<and> (g \<in> memberChunksLeft (ready_guild cl raw) \<longleftrightarrow> g \<in> memberChunksLeft cl)"
    using ne by (simp add: ready_guild_other ready_guild_requested ready_guild_pending)
  show ?case using Cons.IH [OF rest, of "ready_guild cl raw"] step by simp
qed

text \<open>One guild of a snapshot with distinct ids: the loop's effect on that guild's id.\<close>

lemma ready_guilds_at:
  assumes "distinct (map rg_id raws)" and "r \<in> set raws"
  shows "\<exists>cl0. col_get (guilds cl0) (rg_id r) = col_get (guilds cl) (rg_id r)
           \<and> count_list (requested cl0) (rg_id r) = count_list (requested cl) (rg_id r)
           \<and> (rg_id r \<in> memberChunksLeft cl0 \<longleftrightarrow> rg_id r \<in> memberChunksLeft cl)
           \<and> shouldLoadAllMembers cl0 = shouldLoadAllMembers cl
           \<and> largeThreshold cl0 = largeThreshold cl
           \<and> col_enabled (guilds cl0) = col_enabled (guilds cl)
           \<and> col_get (guilds (ready_guilds cl raws)) (rg_id r) = col_get (guilds (ready_guild cl0 r)) (rg_id r)
           \<and> count_list (requested (ready_guilds cl raws)) (rg_id r)
               = count_list (requested (ready_guild cl0 r)) (rg_id r)
           \<and> (rg_id r \<in> memberChunksLeft (ready_guilds cl raws)
                \<longleftrightarrow> rg_id r \<in> memberChunksLeft (ready_guild cl0 r))"
proof -
  from assms(2) obtain pre post where sp: "raws = pre @ r # post"
    by (auto simp: in_set_conv_decomp)
  from assms(1) sp have npre: "rg_id r \<notin> rg_id ` set pre" and npost: "rg_id r \<notin> rg_id ` set post"
    by auto
  let ?cl0 = "ready_guilds cl pre"
  have full: "ready_guilds cl raws = ready_guilds (ready_guild ?cl0 r) post"
    by (simp add: sp ready_guilds_append)
  show ?thesis
    using ready_guilds_other [OF npre, of cl] ready_guilds_other [OF npost, of "ready_guild ?cl0 r"]
      ready_guilds_frame [of cl pre] full
    by (intro exI [of _ ?cl0]) simp
qed

lemma presences_add_frame:
  "guilds (snd (presences_add cl v)) = guilds cl
   \<and> requested (snd (presences_add cl v)) = requested cl
   \<and> memberChunksLeft (snd (presences_add cl v)) = memberChunksLeft cl"
  by (simp add: presences_add_def presences_insert_def Let_def split: prod.splits option.splits)

lemma ready_presences_frame:
  "guilds (ready_presences cl raws) = guilds cl
   \<and> requested (ready_presences cl raws) = requested cl
   \<and> memberChunksLeft (ready_presences cl raws) = memberChunksLeft cl"
  by (induction raws arbitrary: cl) (simp_all add: presences_add_frame)

lemma ready_channels_frame:
  "guilds (ready_channels cl raws) = guilds cl
   \<and> requested (ready_channels cl raws) = requested cl
   \<and> memberChunksLeft (ready_channels cl raws) = memberChunksLeft cl
   \<and> shouldLoadAllMembers (ready_channels cl raws) = shouldLoadAllMembers cl
   \<and> largeThreshold (ready_channels cl raws) = largeThreshold cl"
  by (induction raws arbitrary: cl) (simp_all add: ready_channel_def shouldLoadAllMembers_def)

text \<open>The state in which the READY handler enters its loop over the guilds.\<close>

lemma ready_before_guilds:
  "\<exists>cl3. guilds cl3 = (guilds cl)\<lparr>col_entries := []\<rparr>
           \<and> requested cl3 = requested cl
           \<and> memberChunksLeft cl3 = memberChunksLeft cl
           \<and> shouldLoadAllMembers cl3 = shouldLoadAllMembers cl
           \<and> largeThreshold cl3 = largeThreshold cl
           \<and> guilds (on_READY cl d) = guilds (ready_all_guilds cl3 d)
           \<and> requested (on_READY cl d) = requested (ready_all_guilds cl3 d)
           \<and> memberChunksLeft (on_READY cl d) = memberChunksLeft (ready_all_guilds cl3 d)"
proof -
  let ?cl3 = "ready_private_channels (ready_user (reset cl) d) d"
  have f2: "guilds (ready_user (reset cl) d) = (guilds cl)\<lparr>col_entries := []\<rparr>
      \<and> requested (ready_user (reset cl) d) = requested cl
      \<and> memberChunksLeft (ready_user (reset cl) d) = memberChunksLeft cl
      \<and> shouldLoadAllMembers (ready_user (reset cl) d) = shouldLoadAllMembers cl
      \<and> largeThreshold (ready_user (reset cl) d) = largeThreshold cl"
    by (simp add: ready_user_def reset_def shouldLoadAllMembers_def Let_def)
  have f3: "guilds ?cl3 = guilds (ready_user (reset cl) d)
      \<and> requested ?cl3 = requested (ready_user (reset cl) d)
      \<and> memberChunksLeft ?cl3 = memberChunksLeft (ready_user (reset cl) d)
      \<and> shouldLoadAllMembers ?cl3 = shouldLoadAllMembers (ready_user (reset cl) d)
      \<and> largeThreshold ?cl3 = largeThreshold (ready_user (reset cl) d)"
    by (simp add: ready_private_channels_def ready_channels_frame split: option.splits)
  have out: "guilds (on_READY cl d) = guilds (ready_all_guilds ?cl3 d)
      \<and> requested (on_READY cl d) = requested (ready_all_guilds ?cl3 d)
      \<and> memberChunksLeft (on_READY cl d) = memberChunksLeft (ready_all_guilds ?cl3 d)"
    by (simp add: on_READY_def emit_def ready_all_presences_def ready_presences_frame
          split: option.splits)
  show ?thesis using f2 f3 out by (intro exI [of _ ?cl3]) simp
qed

lemma new_Guild_fields:
  "g_unavailable (new_Guild r) = (rg_unavailable r = Some True)"
  "g_memberCount (new_Guild r) = (case rg_member_count r of None \<Rightarrow> 0 | Some n \<Rightarrow> n)"
  by (auto simp: new_Guild_def guild_merge_def split: option.splits)

lemma created_guild_fresh:
  "col_get (guilds cl) (rg_id r) = None \<Longrightarrow> created_guild cl r = new_Guild r"
  by (simp add: created_guild_def col_has_def col_get_def)

text \<open>
  C3, amended. After READY with bulk member loading enabled (the guild cache enabled, the
  snapshot's guild ids distinct): a scope marked unavailable is in the pending set and no
  full-roster request has been issued for it, whatever its member count; for an available
  scope of the snapshot whose member count is at most the threshold no request is issued
  either, and the scope is queryable with its snapshot.
\<close>

theorem ready_pending_without_request:
  assumes "shouldLoadAllMembers cl" and "col_enabled (guilds cl)"
    and "distinct (map rg_id (rdy_guilds d))"
  shows "(r \<in> set (rdy_guilds d) \<and> rg_unavailable r = Some True \<longrightarrow>
            rg_id r \<in> memberChunksLeft (on_READY cl d)
          \<and> count_list (requested (on_READY cl d)) (rg_id r) = count_list (requested cl) (rg_id r))
       \<and> (r' \<in> set (rdy_guilds d) \<and> rg_unavailable r' \<noteq> Some True
            \<and> g_memberCount (new_Guild r') \<le> largeThreshold cl \<longrightarrow>
            count_list (requested (on_READY cl d)) (rg_id r') = count_list (requested cl) (rg_id r')
          \<and> col_get (guilds (on_READY cl d)) (rg_id r') = Some (new_Guild r'))"
proof -
  obtain cl3 where cl3: "guilds cl3 = (guilds cl)\<lparr>col_entries := []\<rparr>"
      "requested cl3 = requested cl" "memberChunksLeft cl3 = memberChunksLeft cl"
      "shouldLoadAllMembers cl3 = shouldLoadAllMembers cl" "largeThreshold cl3 = largeThreshold cl"
      "guilds (on_READY cl d) = guilds (ready_all_guilds cl3 d)"
      "requested (on_READY cl d) = requested (ready_all_guilds cl3 d)"
      "memberChunksLeft (on_READY cl d) = memberChunksLeft (ready_all_guilds cl3 d)"
    using ready_before_guilds [of cl d] by blast
  have en3: "col_enabled (guilds cl3)" using cl3(1) assms(2) by simp
  have all: "ready_all_guilds cl3 d = ready_guilds cl3 (rdy_guilds d)"
    using en3 by (simp add: ready_all_guilds_def)
  have empty3: "col_get (guilds cl3) g = None" for g by (simp add: cl3(1) col_get_def)
  have una: "rg_id r \<in> memberChunksLeft (on_READY cl d)
          \<and> count_list (requested (on_READY cl d)) (rg_id r) = count_list (requested cl) (rg_id r)"
    if rin: "r \<in> set (rdy_guilds d)" and ru: "rg_unavailable r = Some True"
  proof -
    obtain c0 where c0: "col_get (guilds c0) (rg_id r) = col_get (guilds cl3) (rg_id r)"
        "count_list (requested c0) (rg_id r) = count_list (requested cl3) (rg_id r)"
        "shouldLoadAllMembers c0 = shouldLoadAllMembers cl3"
        "count_list (requested (ready_guilds cl3 (rdy_guilds d))) (rg_id r)
           = count_list (requested (ready_guild c0 r)) (rg_id r)"
        "rg_id r \<in> memberChunksLeft (ready_guilds cl3 (rdy_guilds d))
           \<longleftrightarrow> rg_id r \<in> memberChunksLeft (ready_guild c0 r)"
      using ready_guilds_at [OF assms(3) rin, of cl3] by blast
    have cg: "created_guild c0 r = new_Guild r"
      using c0(1) empty3 by (simp add: created_guild_fresh)
    have sl0: "shouldLoadAllMembers c0" using c0(3) cl3(4) assms(1) by simp
    have un: "g_unavailable (created_guild c0 r)" using cg ru by (simp add: new_Guild_fields)
    have p1: "rg_id r \<in> memberChunksLeft (on_READY cl d)"
      using c0(5) sl0 un by (simp add: cl3(8) all ready_guild_pending)
    have p2: "count_list (requested (on_READY cl d)) (rg_id r) = count_list (requested cl) (rg_id r)"
      using c0(2,4) un by (simp add: cl3(7) cl3(2) all ready_guild_requested)
    from p1 p2 show ?thesis by simp
  qed
  have ava: "count_list (requested (on_READY cl d)) (rg_id r') = count_list (requested cl) (rg_id r')
          \<and> col_get (guilds (on_READY cl d)) (rg_id r') = Some (new_Guild r')"
    if rin: "r' \<in> set (rdy_guilds d)" and sm: "g_memberCount (new_Guild r') \<le> largeThreshold cl"
  proof -
    obtain c1 where c1: "col_get (guilds c1) (rg_id r') = col_get (guilds cl3) (rg_id r')"
        "count_list (requested c1) (rg_id r') = count_list (requested cl3) (rg_id r')"
        "largeThreshold c1 = largeThreshold cl3"
        "col_enabled (guilds c1) = col_enabled (guilds cl3)"
        "col_get (guilds (ready_guilds cl3 (rdy_guilds d))) (rg_id r')
           = col_get (guilds (ready_guild c1 r')) (rg_id r')"
        "count_list (requested (ready_guilds cl3 (rdy_guilds d))) (rg_id r')
           = count_list (requested (ready_guild c1 r')) (rg_id r')"
      using ready_guilds_at [OF assms(3) rin, of cl3] by blast
    have cg1: "created_guild c1 r' = new_Guild r'"
      using c1(1) empty3 by (simp add: created_guild_fresh)
    have small: "\<not> largeThreshold c1 < g_memberCount (created_guild c1 r')"
      using cg1 sm c1(3) cl3(5) by simp
    have p3: "count_list (requested (on_READY cl d)) (rg_id r') = count_list (requested cl) (rg_id r')"
      using c1(2,6) small by (simp add: cl3(7) cl3(2) all ready_guild_requested)
    have en1: "col_enabled (guilds c1)" using c1(4) en3 by simp
    have p4: "col_get (guilds (on_READY cl d)) (rg_id r') = Some (new_Guild r')"
      using c1(5) ready_guild_cached [OF en1, of r'] cg1 by (simp add: cl3(6) all)
    from p3 p4 show ?thesis by simp
  qed
  from una ava show ?thesis by blast
qed

lemmas ready_defs = on_READY_def ready_user_def ready_private_channels_def ready_all_guilds_def
  ready_all_presences_def reset_def ready_guild_def

lemma cl_ready_state:
  "memberChunksLeft cl_ready = {''G''} \<and> requested cl_ready = []
   \<and> loadAllMembers cl_ready \<and> guildSubscriptions cl_ready \<and> largeThreshold cl_ready = 250
   \<and> col_enabled (guilds cl_ready)
   \<and> col_entries (guilds cl_ready) =
        [(''G'', \<lparr>g_id = ''G'', g_name = [], g_unavailable = True, g_memberCount = 5000\<rparr>),
         (''H'', \<lparr>g_id = ''H'', g_name = ''small'', g_unavailable = False, g_memberCount = 10\<rparr>)]"
  by (simp add: cl_ready_def ev_ready_def raw_G_unavailable_def raw_H_def ready_defs
        col_defs new_tcache_def entity_defs client_defs Let_def)

text \<open>
  C3, as stated, fails on the spec's own scenario: after READY the unavailable guild
  \<open>G\<close> (5000 members, threshold 250) is in the pending set, but no request has been
  issued at all.
\<close>

theorem ready_unavailable_no_request:
  "shouldLoadAllMembers new_client \<and> largeThreshold new_client < 5000
   \<and> ''G'' \<in> memberChunksLeft (on_READY new_client ev_ready)
   \<and> requested (on_READY new_client ev_ready) = []"
  using cl_ready_state by (simp add: cl_ready_def new_client_def shouldLoadAllMembers_def)

theorem ready_pending_without_request_witness:
  "shouldLoadAllMembers new_client \<and> col_enabled (guilds new_client)
   \<and> distinct (map rg_id (rdy_guilds ev_ready))
   \<and> raw_G_unavailable \<in> set (rdy_guilds ev_ready) \<and> rg_unavailable raw_G_unavailable = Some True
   \<and> raw_H \<in> set (rdy_guilds ev_ready) \<and> rg_unavailable raw_H \<noteq> Some True
   \<and> g_memberCount (new_Guild raw_H) \<le> largeThreshold new_client
   \<and> ''G'' \<in> memberChunksLeft (on_READY new_client ev_ready)
   \<and> count_list (requested (on_READY new_client ev_ready)) ''G'' = 0
   \<and> count_list (requested (on_READY new_client ev_ready)) ''H'' = 0
   \<and> col_get (guilds (on_READY new_client ev_ready)) ''H''
        = Some \<lparr>g_id = ''H'', g_name = ''small'', g_unavailable = False, g_memberCount = 10\<rparr>"
proof -
  have h1: "shouldLoadAllMembers new_client" by (simp add: new_client_def shouldLoadAllMembers_def)
  have h2: "col_enabled (guilds new_client)" by (simp add: new_client_def new_collection_def)
  have h3: "distinct (map rg_id (rdy_guilds ev_ready))"
    by (simp add: ev_ready_def raw_G_unavailable_def raw_H_def)
  have h4: "raw_G_unavailable \<in> set (rdy_guilds ev_ready)" by (simp add: ev_ready_def)
  have h5: "rg_unavailable raw_G_unavailable = Some True" by (simp add: raw_G_unavailable_def)
  have h6: "raw_H \<in> set (rdy_guilds ev_ready)" by (simp add: ev_ready_def)
  have h7: "rg_unavailable raw_H \<noteq> Some True" by (simp add: raw_H_def)
  have ng: "new_Guild raw_H
      = \<lparr>g_id = ''H'', g_name = ''small'', g_unavailable = False, g_memberCount = 10\<rparr>"
    by (simp add: raw_H_def new_Guild_def guild_merge_def)
  have h8: "g_memberCount (new_Guild raw_H) \<le> largeThreshold new_client"
    by (simp add: ng new_client_def)
  have ids: "rg_id raw_G_unavailable = ''G''" "rg_id raw_H = ''H''"
    by (simp_all add: raw_G_unavailable_def raw_H_def)
  have req0: "requested new_client = []" by (simp add: new_client_def)
  show ?thesis
    using ready_pending_without_request [OF h1 h2 h3, of raw_G_unavailable raw_H]
      h1 h2 h3 h4 h5 h6 h7 h8
    by (simp add: ids req0 ng)
qed

text \<open>
  C4, as stated, fails when the guild cache is disabled. The first GUILD_CREATE for the
  pending scope \<open>G\<close> (5000 members, threshold 250) requests its roster and removes it from
  the pending set, but the scope is not cached, so a second GUILD_CREATE takes it for a
  new guild, adds it to the pending set again and requests the roster again. And at
  bootstrap READY skips its guilds altogether: the pending scope's full snapshot issues no
  request and leaves the scope pending.
\<close>

theorem chunk_request_duplicate_uncached:
  "shouldLoadAllMembers cl_uncached \<and> ''G'' \<in> memberChunksLeft cl_uncached
   \<and> largeThreshold cl_uncached < g_memberCount (created_guild cl_uncached raw_G_full)
   \<and> requested (on_GUILD_CREATE cl_uncached raw_G_full) = [''G'']
   \<and> ''G'' \<notin> memberChunksLeft (on_GUILD_CREATE cl_uncached raw_G_full)
   \<and> requested (on_GUILD_CREATE (on_GUILD_CREATE cl_uncached raw_G_full) raw_G_full)
       = [''G'', ''G'']
   \<and> requested (on_READY cl_uncached ev_ready_G) = []
   \<and> ''G'' \<in> memberChunksLeft (on_READY cl_uncached ev_ready_G)"
  by (simp add: cl_uncached_def raw_G_full_def ev_ready_G_def on_GUILD_CREATE_def created_guild_def
        ready_defs col_defs new_tcache_def entity_defs client_defs Let_def)

theorem chunk_request_once_witness:
  "loadAllMembers cl_ready \<and> rg_id raw_G_full \<in> memberChunksLeft cl_ready
   \<and> col_enabled (guilds cl_ready)
   \<and> guildSubscriptions cl_ready \<and> \<not> g_unavailable (created_guild cl_ready raw_G_full)
   \<and> largeThreshold cl_ready < g_memberCount (created_guild cl_ready raw_G_full)
   \<and> requested (on_GUILD_CREATE cl_ready raw_G_full) = [''G'']
   \<and> ''G'' \<notin> memberChunksLeft (on_GUILD_CREATE cl_ready raw_G_full)
   \<and> requested (on_GUILD_CREATE (on_GUILD_CREATE cl_ready raw_G_full) raw_G_full) = [''G'']
   \<and> requested (ready_guild cl_ready raw_G_full) = [''G'']
   \<and> ''G'' \<notin> memberChunksLeft (ready_guild cl_ready raw_G_full)
   \<and> requested (on_GUILD_CREATE (ready_guild cl_ready raw_G_full) raw_G_full) = [''G'']"
proof -
  have id: "rg_id raw_G_full = ''G''" by (simp add: raw_G_full_def)
  have h1: "loadAllMembers cl_ready" using cl_ready_state by simp
  have h2: "rg_id raw_G_full \<in> memberChunksLeft cl_ready" using cl_ready_state by (simp add: id)
  have h3: "col_enabled (guilds cl_ready)" using cl_ready_state by simp
  have h4: "guildSubscriptions cl_ready" using cl_ready_state by simp
  have cg: "created_guild cl_ready raw_G_full
      = \<lparr>g_id = ''G'', g_name = ''large'', g_unavailable = False, g_memberCount = 5000\<rparr>"
    using cl_ready_state
    by (simp add: created_guild_def raw_G_full_def col_has_def col_get_def guild_merge_def)
  have h5: "\<not> g_unavailable (created_guild cl_ready raw_G_full)" by (simp add: cg)
  have large: "largeThreshold cl_ready < g_memberCount (created_guild cl_ready raw_G_full)"
    using cl_ready_state by (simp add: cg)
  have req: "requested cl_ready = []" using cl_ready_state by simp
  show ?thesis
    using chunk_request_once [OF h1 h2 refl] h1 h2 h3 h4 h5 large
    by (simp add: id req)
qed

section \<open>Identity of cached objects\<close>

lemma get_Entity_iff:
  "presences_get c (Some cid) (Some uid) = Entity a \<longleftrightarrow>
     tc_enabled c \<and> (\<exists>cache. map_of (tc_tiers c) cid = Some cache \<and> map_of cache uid = Some a)"
  by (auto simp: presences_get_def split: option.splits)

lemma has_iff_get:
  "presences_has c (Some cid) (Some uid) \<longleftrightarrow> (\<exists>a. presences_get c (Some cid) (Some uid) = Entity a)"
  by (auto simp: presences_has_def presences_get_def split: option.splits)





lemma tc_mutate_lookup:
  "presences_get (tc_mutate c a f) g u = presences_get c g u"
  "presences_has (tc_mutate c a f) g u = presences_has c g u"
  by (cases g; cases u; simp add: tc_mutate_def presences_get_def presences_has_def)+

lemma delete_fields:
  "tc_heap (snd (presences_delete c g u)) = tc_heap c"
  "tc_enabled (snd (presences_delete c g u)) = tc_enabled c"
  by (simp_all add: presences_delete_def split: option.splits)






subsection \<open>The step on a flat repository\<close>

lemmas rc_defs = rc_has_def rc_get_def rc_deref_def rc_new_def rc_mutate_def rc_insert_def

lemma resolve_existing:
  assumes "rc_get rc key = Some a"
  shows "fst (resolve merge new id_of rc key d) = a"
    and "rc_heap (snd (resolve merge new id_of rc key d)) a = Some (merge (rc_deref rc a) d)"
    and "rc_get (snd (resolve merge new id_of rc key d)) key = Some a"
  using assms by (simp_all add: resolve_def rc_defs Let_def)

lemma resolve_new:
  assumes "rc_get rc key = None"
  shows "fst (resolve merge new id_of rc key d) = rc_next rc"
    and "rc_get (snd (resolve merge new id_of rc key d)) key =
           (if rc_enabled rc \<and> id_of (new d) = key then Some (rc_next rc) else None)"
  using assms by (simp_all add: resolve_def rc_defs Let_def update_conv')


lemma resolve_cached:
  assumes "rc_enabled rc" and "id_of (new d) = key"
  shows "rc_get (snd (resolve merge new id_of rc key d)) key \<noteq> None"
  using assms by (cases "rc_get rc key") (simp_all add: resolve_existing resolve_new)

text \<open>Reading the repository by value: the step is the by-value step of the handlers.\<close>

lemma view_mutate:
  assumes "distinct (map snd idx)" and "map_of idx key = Some a"
  shows "map (\<lambda>(k, b). (k, the ((h(a \<mapsto> v)) b))) idx
           = AList.update key v (map (\<lambda>(k, b). (k, the (h b))) idx)"
  using assms
proof (induction idx)
  case Nil
  then show ?case by simp
next
  case (Cons p idx)
  obtain k0 a0 where p: "p = (k0, a0)" by (cases p)
  show ?case
  proof (cases "k0 = key")
    case True
    with Cons.prems p have a0: "a0 = a" by simp
    from Cons.prems(1) p a0 have "a \<notin> snd ` set idx" by simp
    then have "map (\<lambda>(k, b). (k, the ((h(a \<mapsto> v)) b))) idx = map (\<lambda>(k, b). (k, the (h b))) idx"
      by (intro map_cong) (auto simp: image_iff)
    then show ?thesis using True p a0 by simp
  next
    case False
    with Cons.prems p have m: "map_of idx key = Some a" by simp
    then have "a \<in> snd ` set idx" by (metis map_of_SomeD image_eqI snd_conv)
    with Cons.prems(1) p have "a0 \<noteq> a" by auto
    then show ?thesis using False p Cons.IH m Cons.prems(1) by simp
  qed
qed

lemma view_insert:
  assumes "map_of idx key = None" and "n \<notin> snd ` set idx"
  shows "map (\<lambda>(k, b). (k, the ((h(n \<mapsto> v)) b))) (AList.update key n idx)
           = AList.update key v (map (\<lambda>(k, b). (k, the (h b))) idx)"
  using assms
proof (induction idx)
  case Nil
  then show ?case by simp
next
  case (Cons p idx)
  obtain k0 a0 where p: "p = (k0, a0)" by (cases p)
  from Cons.prems p have ne: "k0 \<noteq> key" and m: "map_of idx key = None"
    and a0: "a0 \<noteq> n" and nn: "n \<notin> snd ` set idx"
    by (auto split: if_splits)
  show ?case using Cons.IH [OF m nn] ne a0 p by simp
qed

lemma view_lookup:
  "map_of (map (\<lambda>(k, b). (k, f b)) idx) key = map_option f (map_of idx key)"
  by (induction idx) auto

lemma view_fresh:
  assumes "n \<notin> snd ` set idx"
  shows "map (\<lambda>(k, b). (k, the ((h(n \<mapsto> v)) b))) idx = map (\<lambda>(k, b). (k, the (h b))) idx"
  using assms by (intro map_cong) (auto simp: image_iff)

lemma resolve_view:
  assumes wf: "rc_wf rc" and id: "id_of (new d) = key"
  shows "rc_view (snd (resolve merge new id_of rc key d)) =
           (if col_has (rc_view rc) key
            then col_set (rc_view rc) key (merge (the (col_get (rc_view rc) key)) d)
            else col_insert (rc_view rc) key (new d))"
    and "rc_deref (snd (resolve merge new id_of rc key d)) (fst (resolve merge new id_of rc key d)) =
           (if col_has (rc_view rc) key
            then merge (the (col_get (rc_view rc) key)) d else new d)"
proof -
  have has: "col_has (rc_view rc) key = rc_has rc key"
    by (simp add: col_has_def rc_view_def rc_has_def view_lookup)
  have get: "col_get (rc_view rc) key = map_option (rc_deref rc) (rc_get rc key)"
    by (simp add: col_get_def rc_view_def rc_get_def view_lookup)
  show "rc_view (snd (resolve merge new id_of rc key d)) =
           (if col_has (rc_view rc) key
            then col_set (rc_view rc) key (merge (the (col_get (rc_view rc) key)) d)
            else col_insert (rc_view rc) key (new d))"
  proof (cases "rc_get rc key")
    case None
    have fresh: "rc_next rc \<notin> snd ` set (rc_index rc)" using wf by (auto simp: rc_wf_def)
    have m: "map_of (rc_index rc) key = None" using None by (simp add: rc_get_def)
    have nh: "\<not> rc_has rc key" using None by (simp add: rc_has_def rc_get_def)
    have "rc_view (snd (resolve merge new id_of rc key d)) = col_insert (rc_view rc) key (new d)"
      using nh id view_insert [OF m fresh, of "rc_heap rc" "new d"]
        view_fresh [OF fresh, of "rc_heap rc" "new d"]
      by (simp add: resolve_def rc_defs Let_def rc_view_def col_insert_def col_set_def)
    then show ?thesis using nh by (simp add: has)
  next
    case (Some a)
    have d: "distinct (map snd (rc_index rc))" using wf by (simp add: rc_wf_def)
    have m: "map_of (rc_index rc) key = Some a" using Some by (simp add: rc_get_def)
    have h: "rc_has rc key" using Some by (simp add: rc_has_def rc_get_def)
    have "rc_view (snd (resolve merge new id_of rc key d))
            = col_set (rc_view rc) key (merge (rc_deref rc a) d)"
      using h Some view_mutate [OF d m, of "rc_heap rc" "merge (the (rc_heap rc a)) d"]
      by (simp add: resolve_def rc_defs Let_def rc_view_def col_set_def)
    then show ?thesis using h Some by (simp add: has get)
  qed
  show "rc_deref (snd (resolve merge new id_of rc key d)) (fst (resolve merge new id_of rc key d)) =
           (if col_has (rc_view rc) key
            then merge (the (col_get (rc_view rc) key)) d else new d)"
    by (cases "rc_get rc key") (simp_all add: has get rc_has_def resolve_def rc_defs Let_def)
qed

text \<open>
  The update handlers, which keep their repository by value, perform this step: read by
  value, the repository after the step is the handler's repository, and the notification
  carries the object the step returns.
\<close>

lemma new_ids:
  "g_id (new_Guild g) = rg_id g" "c_id (createChannelFromData c) = rc_id c"
  "m_id (new_Message m) = rm_id m" "vc_channelId (new_VoiceCall v) = rvc_channel_id v"
  by (simp_all add: new_Guild_def guild_merge_def createChannelFromData_def channel_merge_def
        new_Message_def message_merge_def new_VoiceCall_def call_merge_def)

lemma guild_update_is_resolve:
  assumes "guilds cl = rc_view rc" and "rc_wf rc"
  shows "guilds (on_GUILD_UPDATE cl d)
           = rc_view (snd (resolve guild_merge new_Guild g_id rc (rg_id d) d))"
    and "\<exists>df. emitted (on_GUILD_UPDATE cl d) = emitted cl @ [(CE_GUILD_UPDATE, PGuildUpdate df
           (rc_deref (snd (resolve guild_merge new_Guild g_id rc (rg_id d) d))
                     (fst (resolve guild_merge new_Guild g_id rc (rg_id d) d))))]"
  using assms(1)
  by (simp_all add: resolve_view [where merge = guild_merge and new = new_Guild and id_of = g_id and key = "rg_id d" and d = d, OF assms(2) new_ids(1)] on_GUILD_UPDATE_def emit_def Let_def
        new_ids col_set_def col_insert_def split: prod.splits)

lemma guild_create_is_resolve:
  assumes "guilds cl = rc_view rc" and "rc_wf rc"
  shows "guilds (on_GUILD_CREATE cl d)
           = rc_view (snd (resolve guild_merge new_Guild g_id rc (rg_id d) d))"
    and "\<exists>fu. emitted (on_GUILD_CREATE cl d) = emitted cl @ [(CE_GUILD_CREATE, PGuildCreate fu
           (rc_deref (snd (resolve guild_merge new_Guild g_id rc (rg_id d) d))
                     (fst (resolve guild_merge new_Guild g_id rc (rg_id d) d))))]"
  using assms(1)
  by (auto simp: resolve_view [where merge = guild_merge and new = new_Guild and id_of = g_id and key = "rg_id d" and d = d, OF assms(2) new_ids(1)] on_GUILD_CREATE_def emit_def Let_def
        new_ids col_set_def col_insert_def requestGuildMembers_def split: prod.splits)

lemma channel_update_is_resolve:
  assumes "channels cl = rc_view rc" and "rc_wf rc"
  shows "channels (on_CHANNEL_UPDATE cl d)
           = rc_view (snd (resolve channel_merge createChannelFromData c_id rc (rc_id d) d))"
    and "\<exists>df. emitted (on_CHANNEL_UPDATE cl d) = emitted cl @ [(CE_CHANNEL_UPDATE, PChannelUpdate
           (rc_deref (snd (resolve channel_merge createChannelFromData c_id rc (rc_id d) d))
                     (fst (resolve channel_merge createChannelFromData c_id rc (rc_id d) d))) df)]"
  using assms(1)
  by (simp_all add: resolve_view [where merge = channel_merge and new = createChannelFromData and id_of = c_id and key = "rc_id d" and d = d, OF assms(2) new_ids(2)] on_CHANNEL_UPDATE_def emit_def Let_def
        new_ids col_set_def col_insert_def split: prod.splits)

lemma message_update_is_resolve:
  assumes "messages cl = rc_view rc" and "rc_wf rc"
  shows "messages (on_MESSAGE_UPDATE cl d)
           = rc_view (snd (resolve message_merge new_Message m_id rc (rm_id d) d))"
    and "\<exists>df. emitted (on_MESSAGE_UPDATE cl d) = emitted cl @ [(CE_MESSAGE_UPDATE, PMessageUpdate df
           (rc_deref (snd (resolve message_merge new_Message m_id rc (rm_id d) d))
                     (fst (resolve message_merge new_Message m_id rc (rm_id d) d))))]"
  using assms(1)
  by (simp_all add: resolve_view [where merge = message_merge and new = new_Message and id_of = m_id and key = "rm_id d" and d = d, OF assms(2) new_ids(3)] on_MESSAGE_UPDATE_def emit_def Let_def
        new_ids col_set_def col_insert_def split: prod.splits)

lemma call_update_is_resolve:
  assumes "voiceCalls cl = rc_view rc" and "rc_wf rc"
  shows "voiceCalls (on_CALL_UPDATE cl d)
           = rc_view (snd (resolve call_merge new_VoiceCall vc_channelId rc (rvc_channel_id d) d))"
    and "\<exists>df. emitted (on_CALL_UPDATE cl d) = emitted cl @ [(CE_CALL_UPDATE, PCallUpdate
           (rc_deref (snd (resolve call_merge new_VoiceCall vc_channelId rc (rvc_channel_id d) d))
                     (fst (resolve call_merge new_VoiceCall vc_channelId rc (rvc_channel_id d) d))) df)]"
  using assms(1)
  by (simp_all add: resolve_view [where merge = call_merge and new = new_VoiceCall and id_of = vc_channelId and key = "rvc_channel_id d" and d = d, OF assms(2) new_ids(4)] on_CALL_UPDATE_def emit_def Let_def
        new_ids col_set_def col_insert_def split: prod.splits)

subsection \<open>The step on a tiered cache\<close>

lemma members_insert_is_tier_insert: "members_insert = tier_insert mb_guildId mb_userId"
  by (intro ext) (simp add: members_insert_def tier_insert_def)





lemma member_update_is_resolve:
  "members (on_GUILD_MEMBER_UPDATE cl d)
     = snd (resolve_tier member_merge new_Member mb_guildId mb_userId (members cl)
              (rmb_guild_id d) (ru_id (rmb_user d)) d)"
  "\<exists>df. emitted (on_GUILD_MEMBER_UPDATE cl d) = emitted cl @ [(CE_GUILD_MEMBER_UPDATE,
     PGuildMemberUpdate df (rmb_guild_id d)
       (fst (resolve_tier member_merge new_Member mb_guildId mb_userId (members cl)
              (rmb_guild_id d) (ru_id (rmb_user d)) d)))]"
  by (simp_all add: on_GUILD_MEMBER_UPDATE_def resolve_tier_def members_has_def members_get_def
        members_insert_is_tier_insert emit_def Let_def case_prod_beta)

lemma presences_insert_dep:
  assumes "presences cl' = presences cl" and "members cl' = members cl"
  shows "fst (presences_insert cl' a) = fst (presences_insert cl a)"
    and "presences (snd (presences_insert cl' a)) = presences (snd (presences_insert cl a))"
    and "members (snd (presences_insert cl' a)) = members (snd (presences_insert cl a))"
  by (simp_all add: presences_insert_def Let_def assms split: option.splits)

lemma presences_add_dep:
  assumes "presences cl' = presences cl" and "members cl' = members cl"
  shows "members (snd (presences_add cl' d)) = members (snd (presences_add cl d))"
proof -
  have ins: "members (snd (presences_insert (cl'\<lparr>presences := pc\<rparr>) a))
           = members (snd (presences_insert (cl\<lparr>presences := pc\<rparr>) a))" for pc a
    by (rule presences_insert_dep(3)) (simp_all add: assms)
  show ?thesis
    by (simp add: presences_add_def Let_def case_prod_beta assms ins split: option.splits)
qed

lemma presences_add_diffCalls:
  "members (snd (presences_add (cl\<lparr>diffCalls := n\<rparr>) d)) = members (snd (presences_add cl d))"
  by (rule presences_add_dep) simp_all

lemma presence_update_is_resolve:
  assumes "rp_guild_id d = Some gid" and "gid \<noteq> []"
  shows "members (on_PRESENCE_UPDATE cl d)
     = snd (resolve_tier member_merge new_Member mb_guildId mb_userId
              (members (snd (presences_add cl d))) gid (ru_id (rp_user d))
              \<lparr>rmb_guild_id = gid, rmb_nick = rp_nick d,
                 rmb_roles = Some (case rp_roles d of None \<Rightarrow> [] | Some rs \<Rightarrow> rs),
                 rmb_user = rp_user d\<rparr>)"
  using assms
  by (simp add: on_PRESENCE_UPDATE_def resolve_tier_def members_has_def members_get_def
        members_insert_is_tier_insert emit_def Let_def case_prod_beta truthy_def
        presences_add_diffCalls)

lemma update_addresses:
  "snd ` set (AList.update k v al) \<subseteq> insert v (snd ` set al)"
  by (induction al) auto

lemma update_distinct_addresses:
  assumes "distinct (map snd al)" and "v \<notin> snd ` set al"
  shows "distinct (map snd (AList.update k v al))"
  using assms
proof (induction al)
  case Nil
  then show ?case by simp
next
  case (Cons p al)
  have sub: "snd ` set (AList.update k v al) \<subseteq> insert v (snd ` set al)"
    by (rule update_addresses)
  from Cons.prems have d: "distinct (map snd al)" and v: "v \<notin> snd ` set al"
    and p: "snd p \<notin> snd ` set al" and pv: "snd p \<noteq> v"
    by auto
  show ?case
  proof (cases "fst p = k")
    case True
    then show ?thesis using d v by simp
  next
    case False
    have "snd p \<notin> snd ` set (AList.update k v al)" using sub p pv by auto
    then show ?thesis using False Cons.IH [OF d v] by simp
  qed
qed

text \<open>The repository stays well-formed along the steps, starting from the empty one.\<close>

lemma resolve_wf:
  assumes "rc_wf rc"
  shows "rc_wf (snd (resolve merge new id_of rc key d))"
proof (cases "rc_has rc key")
  case True
  then show ?thesis using assms by (simp add: resolve_def rc_defs rc_wf_def Let_def)
next
  case False
  have fresh: "rc_next rc \<notin> snd ` set (rc_index rc)" using assms by (auto simp: rc_wf_def)
  have d: "distinct (map snd (rc_index rc))" using assms by (simp add: rc_wf_def)
  have k: "distinct (map fst (rc_index rc))" using assms by (simp add: rc_wf_def)
  have lt: "\<forall>a \<in> snd ` set (rc_index rc). a < Suc (rc_next rc)"
    using assms by (auto simp: rc_wf_def)
  have lt': "\<forall>a \<in> snd ` set (AList.update k' (rc_next rc) (rc_index rc)). a < Suc (rc_next rc)" for k'
  proof
    fix a
    assume "a \<in> snd ` set (AList.update k' (rc_next rc) (rc_index rc))"
    then have "a \<in> insert (rc_next rc) (snd ` set (rc_index rc))"
      using update_addresses [of k' "rc_next rc" "rc_index rc"] by blast
    then show "a < Suc (rc_next rc)" using lt by blast
  qed
  show ?thesis
    using False d k lt lt' update_distinct_addresses [OF d fresh]
    by (simp add: resolve_def rc_defs rc_wf_def Let_def distinct_update)
qed

lemma empty_wf: "rc_wf \<lparr>rc_enabled = en, rc_index = [], rc_heap = (\<lambda>_. None), rc_next = 0\<rparr>"
  by (simp add: rc_wf_def)

subsection \<open>Identity\<close>





section \<open>Offline presences and the roster\<close>

lemma members_delete_enabled: "tc_enabled (snd (members_delete c g u)) = tc_enabled c"
  by (simp add: members_delete_def delete_fields)

lemma presences_insert_members_enabled:
  "tc_enabled (members (snd (presences_insert cl a))) = tc_enabled (members cl)"
  by (simp add: presences_insert_def Let_def members_delete_enabled split: option.splits)

lemma presences_add_members_enabled:
  "tc_enabled (members (snd (presences_add cl v))) = tc_enabled (members cl)"
  by (simp add: presences_add_def Let_def case_prod_beta members_delete_enabled
        presences_insert_members_enabled split: option.splits)

lemma members_insert_get:
  assumes "tc_enabled c" and "tc_heap c a = Some mb"
  shows "members_get (members_insert c a) (Some (mb_guildId mb)) (Some (mb_userId mb)) = Entity a"
  using assms
  by (simp add: members_insert_def members_get_def get_Entity_iff presences_insertCache_def
        deref_def Let_def update_conv')

text \<open>
  Whenever the roster cache is enabled, a PRESENCE_UPDATE that carries a guild id leaves a
  member cached for that guild and user, whatever the status.
\<close>

lemma presence_update_member_present:
  assumes en: "tc_enabled (members cl)" and g: "rp_guild_id d = Some gid" and ne: "gid \<noteq> []"
  shows "members_has (members (on_PRESENCE_UPDATE cl d)) (Some gid) (Some (ru_id (rp_user d)))"
proof -
  define cl1 where "cl1 = snd (if hasEventListener cl CE_PRESENCE_UPDATE
                \<and> presences_has (presences cl) (Some (js_or (rp_guild_id d) DEFAULT_PRESENCE_CACHE_KEY)) (Some (ru_id (rp_user d)))
             then (Val (presence_differences
                      (deref (presences cl) (as_entity (presences_get (presences cl) (Some (js_or (rp_guild_id d) DEFAULT_PRESENCE_CACHE_KEY)) (Some (ru_id (rp_user d)))))) d),
                   cl\<lparr>diffCalls := Suc (diffCalls cl)\<rparr>)
             else (Null :: string list jsval, cl))"
  define cl2 where "cl2 = snd (presences_add cl1 d)"
  have en1: "tc_enabled (members cl1)" using en by (simp add: cl1_def)
  have en2: "tc_enabled (members cl2)"
    using presences_add_members_enabled [of cl1 d] en1 by (simp add: cl2_def)
  let ?raw = "\<lparr>rmb_guild_id = gid, rmb_nick = rp_nick d,
                 rmb_roles = Some (case rp_roles d of None \<Rightarrow> [] | Some rs \<Rightarrow> rs),
                 rmb_user = rp_user d\<rparr>"
  have mem: "members (on_PRESENCE_UPDATE cl d) =
      (if members_has (members cl2) (Some gid) (Some (ru_id (rp_user d)))
       then tc_mutate (members cl2)
              (as_entity (members_get (members cl2) (Some gid) (Some (ru_id (rp_user d)))))
              (\<lambda>x. member_merge x ?raw)
       else members_insert (snd (tc_new (members cl2) (new_Member ?raw)))
              (fst (tc_new (members cl2) (new_Member ?raw))))"
    unfolding cl2_def cl1_def
    by (simp add: on_PRESENCE_UPDATE_def Let_def case_prod_beta emit_def truthy_def g ne)
  show ?thesis
  proof (cases "members_has (members cl2) (Some gid) (Some (ru_id (rp_user d)))")
    case True
    then show ?thesis unfolding mem by (simp add: members_has_def tc_mutate_lookup)
  next
    case False
    have "members_get (members_insert (snd (tc_new (members cl2) (new_Member ?raw)))
              (fst (tc_new (members cl2) (new_Member ?raw))))
            (Some (mb_guildId (new_Member ?raw))) (Some (mb_userId (new_Member ?raw)))
          = Entity (fst (tc_new (members cl2) (new_Member ?raw)))"
      by (rule members_insert_get) (simp_all add: tc_new_def en2)
    then show ?thesis
      unfolding mem using False
      by (simp add: members_has_def members_get_def has_iff_get new_Member_def member_merge_def)
  qed
qed

text \<open>
  C1 (the code departs from the claim). User \<open>U\<close> is online in guild \<open>G\<close>, neither cache
  retains offline entries, and a PRESENCE_UPDATE reports \<open>U\<close> offline in \<open>G\<close>.
  \<^verbatim>\<open>Presences.add\<close> removes the presence and the member, but the handler then finds no
  member for \<open>(G, U)\<close>, builds a new one from the presence's fields and inserts it: after
  the handler the presence is absent and the member is present again, as the new
  object at address 1.
\<close>

theorem presence_update_offline_reinserts_member:
  "\<not> presences_has (presences (on_PRESENCE_UPDATE cl_online (ev_presence ''offline'')))
        (Some ''G'') (Some ''U'')
   \<and> members_has (members (on_PRESENCE_UPDATE cl_online (ev_presence ''offline'')))
        (Some ''G'') (Some ''U'')
   \<and> members_get (members (on_PRESENCE_UPDATE cl_online (ev_presence ''offline'')))
        (Some ''G'') (Some ''U'') = Entity 1"
  by (simp add: cl_online_def ev_presence_def on_PRESENCE_UPDATE_def presences_add_def
        presences_insert_def tc_defs js_defs entity_defs client_defs Let_def)

end
